theory Spec2Isabelle
  imports Main
begin

section \<open>The voice turn-taking loops of static/app.js\<close>

text \<open>
  The check-in loop and the booking loop of \<^verbatim>\<open>static/app.js\<close> are callback driven:
  every function below is one JavaScript function or one event handler of the source,
  written as a function from the state before the call to the state after it. The
  browser is part of the state: the queue of \<^verbatim>\<open>speechSynthesis\<close> (one per page,
  shared by both loops), the \<^verbatim>\<open>SpeechRecognition\<close> objects created so far (each with
  the \<^verbatim>\<open>finalTranscript\<close> variable its handlers close over), the callbacks waiting
  in \<^verbatim>\<open>setTimeout\<close>, and the requests sent with \<^verbatim>\<open>fetch\<close>.

  The engines behave as the Web Speech API says: \<^verbatim>\<open>cancel()\<close> empties the speech
  queue, an utterance leaves the queue when it ends or fails, a recognizer reports
  results, then its end.

  Not modelled, since no property below depends on it: the locale and voice chosen for
  an utterance, its rate and pitch, the height of the text area, console output, style
  classes that repeat a modelled flag, the page titles and badges, the step of a view
  that is shown, the patient id, and the booking state card. The elements looked up
  with \<^verbatim>\<open>getElementById\<close> are taken to exist.
\<close>

subsection \<open>Strings\<close>

text \<open>
  A JavaScript string is the list of its UTF-16 code units. \<open>js\<close> writes an ASCII
  text as such a list.
\<close>

type_synonym jsstring = "int list"

definition js :: "string \<Rightarrow> jsstring" where
  "js s = map of_char s"

definition ellipsis :: jsstring where
  "ellipsis = [0x2026]"

text \<open>
  \<^verbatim>\<open>String.prototype.trim\<close> removes the white space and the line terminators of
  ECMAScript from both ends.
\<close>

definition is_ws :: "int \<Rightarrow> bool" where
  "is_ws c =
     (c \<in> {0x09, 0x0A, 0x0B, 0x0C, 0x0D, 0x20, 0xA0, 0x1680, 0x2028, 0x2029, 0x202F,
            0x205F, 0x3000, 0xFEFF} \<or>
      (0x2000 \<le> c \<and> c \<le> 0x200A))"

definition trim :: "jsstring \<Rightarrow> jsstring" where
  "trim s = rev (dropWhile is_ws (rev (dropWhile is_ws s)))"

text \<open>A string is truthy when it is not empty; \<^verbatim>\<open>a || b\<close> on strings.\<close>

definition str_or :: "jsstring \<Rightarrow> jsstring \<Rightarrow> jsstring" where
  "str_or a b = (if a \<noteq> [] then a else b)"

text \<open>The two texts shown when a request has failed; the first has a dash (U+2014).\<close>

definition checkin_apology :: jsstring where
  "checkin_apology = js ''[Connection error '' @ [0x2014] @ js '' please try again.]''"

definition booking_apology :: jsstring where
  "booking_apology = js ''[Error communicating with server. Please try again.]''"

text \<open>A session id is \<^verbatim>\<open>null\<close> or a number; \<^verbatim>\<open>null\<close> and 0 are falsy.\<close>

definition truthy_id :: "nat option \<Rightarrow> bool" where
  "truthy_id i = (case i of None \<Rightarrow> False | Some n \<Rightarrow> n \<noteq> 0)"

subsection \<open>The platform and the engine objects\<close>

record platform =
  hasSpeechSynthesis :: bool
  hasSpeechRecognition :: bool
  recStartThrows :: bool
  recStopThrows :: bool

datatype owner = Checkin | Booking

datatype role = User | Assistant

record utterance =
  u_id :: nat
  u_owner :: owner
  u_text :: jsstring

record recognizer =
  r_id :: nat
  r_owner :: owner
  r_final :: jsstring
  r_active :: bool

text \<open>
  A \<^verbatim>\<open>setTimeout\<close> callback. The two submit callbacks read \<^verbatim>\<open>finalTranscript\<close>
  of their recognizer when they run, so they carry the recognizer, not the text.
\<close>

datatype task =
    TStartCheckinListening
  | TStartBookingListening
  | TSendCheckinMessage nat
  | TSendBookingMessage nat

record request =
  q_owner :: owner
  q_session :: nat
  q_message :: jsstring

record sr_event =
  resultIndex :: nat
  results :: "(jsstring \<times> bool) list"

subsection \<open>The state\<close>

record checkin_loop =
  c_sessionId :: "nat option"
  c_isAutoMode :: bool
  c_isSpeaking :: bool
  c_isListening :: bool
  c_rec :: "nat option"
  c_utterance :: "nat option"
  c_indicatorHidden :: bool
  c_indicatorText :: jsstring
  c_micRecording :: bool
  c_statusActive :: bool
  c_statusText :: jsstring
  c_input :: jsstring
  c_messages :: "(role \<times> jsstring) list"
  c_typing :: nat
  c_sendDisabled :: bool
  c_autoLabel :: jsstring

record booking_loop =
  b_sessionId :: "nat option"
  b_isAutoMode :: bool
  b_isSpeaking :: bool
  b_isListening :: bool
  b_rec :: "nat option"
  b_utterance :: "nat option"
  b_indicatorHidden :: bool
  b_indicatorText :: jsstring
  b_statusText :: jsstring
  b_micActive :: bool
  b_input :: jsstring
  b_messages :: "(role \<times> jsstring) list"
  b_autoLabel :: jsstring
  b_confirmedShown :: bool

record world =
  checkin :: checkin_loop
  booking :: booking_loop
  synthQueue :: "utterance list"
  recognizers :: "recognizer list"
  timers :: "(nat \<times> task) list"
  requests :: "request list"
  alerts :: "jsstring list"
  uncaught :: nat
  apiKeyBanner :: bool
  nextId :: nat

text \<open>The declarations of \<^verbatim>\<open>checkinState\<close> and \<^verbatim>\<open>bookingState\<close>, and an empty page.\<close>

definition checkin0 :: checkin_loop where
  "checkin0 = \<lparr> c_sessionId = None, c_isAutoMode = True, c_isSpeaking = False,
     c_isListening = False, c_rec = None, c_utterance = None, c_indicatorHidden = True,
     c_indicatorText = [], c_micRecording = False, c_statusActive = False,
     c_statusText = [], c_input = [], c_messages = [], c_typing = 0,
     c_sendDisabled = False, c_autoLabel = js ''Auto On'' \<rparr>"

definition booking0 :: booking_loop where
  "booking0 = \<lparr> b_sessionId = None, b_isAutoMode = True, b_isSpeaking = False,
     b_isListening = False, b_rec = None, b_utterance = None, b_indicatorHidden = True,
     b_indicatorText = [], b_statusText = [], b_micActive = False, b_input = [],
     b_messages = [], b_autoLabel = js ''Auto On'', b_confirmedShown = False \<rparr>"

definition world0 :: world where
  "world0 = \<lparr> checkin = checkin0, booking = booking0, synthQueue = [], recognizers = [],
     timers = [], requests = [], alerts = [], uncaught = 0, apiKeyBanner = False,
     nextId = 0 \<rparr>"

definition browser :: platform where
  "browser = \<lparr> hasSpeechSynthesis = True, hasSpeechRecognition = True,
     recStartThrows = False, recStopThrows = False \<rparr>"

definition upd_c :: "(checkin_loop \<Rightarrow> checkin_loop) \<Rightarrow> world \<Rightarrow> world" where
  "upd_c f w = w\<lparr>checkin := f (checkin w)\<rparr>"

definition upd_b :: "(booking_loop \<Rightarrow> booking_loop) \<Rightarrow> world \<Rightarrow> world" where
  "upd_b f w = w\<lparr>booking := f (booking w)\<rparr>"

subsection \<open>Engine calls\<close>

text \<open>\<^verbatim>\<open>speechSynthesis.cancel()\<close> removes every utterance from the queue of the page.\<close>

definition synth_cancel :: "world \<Rightarrow> world" where
  "synth_cancel w = w\<lparr>synthQueue := []\<rparr>"

definition synth_speak :: "utterance \<Rightarrow> world \<Rightarrow> world" where
  "synth_speak u w = w\<lparr>synthQueue := synthQueue w @ [u]\<rparr>"

definition set_active :: "nat \<Rightarrow> bool \<Rightarrow> recognizer list \<Rightarrow> recognizer list" where
  "set_active i a rs = map (\<lambda>r. if r_id r = i then r\<lparr>r_active := a\<rparr> else r) rs"

definition set_final :: "nat \<Rightarrow> jsstring \<Rightarrow> recognizer list \<Rightarrow> recognizer list" where
  "set_final i t rs = map (\<lambda>r. if r_id r = i then r\<lparr>r_final := t\<rparr> else r) rs"

definition find_rec :: "nat \<Rightarrow> owner \<Rightarrow> world \<Rightarrow> recognizer option" where
  "find_rec i ow w = find (\<lambda>r. r_id r = i \<and> r_owner r = ow) (recognizers w)"

text \<open>
  \<^verbatim>\<open>try { rec.stop(); } catch (e) { }\<close>: when the call throws, the session of the
  engine is left as it was and the exception is dropped.
\<close>

definition try_rec_stop :: "platform \<Rightarrow> nat \<Rightarrow> world \<Rightarrow> world" where
  "try_rec_stop p i w =
     (if recStopThrows p then w else w\<lparr>recognizers := set_active i False (recognizers w)\<rparr>)"

definition new_rec :: "owner \<Rightarrow> world \<Rightarrow> world" where
  "new_rec ow w = w\<lparr>recognizers := recognizers w @
       [\<lparr>r_id = nextId w, r_owner = ow, r_final = [], r_active = False\<rparr>],
     nextId := Suc (nextId w)\<rparr>"

subsection \<open>Check-in: indicator and stop functions\<close>

text \<open>
  \<^verbatim>\<open>speechSynthesis.cancel()\<close> stands outside any \<^verbatim>\<open>try\<close>, in both loops. It
  is taken to return: the Web Speech API defines no exception for it.
\<close>

datatype indicator = Idle | Speaking | Listening

definition setCheckinVoiceIndicator :: "indicator \<Rightarrow> world \<Rightarrow> world" where
  "setCheckinVoiceIndicator s w =
     (case s of
        Idle \<Rightarrow> upd_c (\<lambda>c. c\<lparr>c_indicatorHidden := True\<rparr>) w
      | Speaking \<Rightarrow> upd_c (\<lambda>c. c\<lparr>c_indicatorHidden := False,
                                  c_indicatorText := (js ''Aria is speaking'' @ ellipsis)\<rparr>) w
      | Listening \<Rightarrow> upd_c (\<lambda>c. c\<lparr>c_indicatorHidden := False,
                                   c_indicatorText := (js ''Aria is listening'' @ ellipsis)\<rparr>) w)"

definition stopCheckinSpeaking :: "platform \<Rightarrow> world \<Rightarrow> world" where
  "stopCheckinSpeaking p w =
     upd_c (\<lambda>c. c\<lparr>c_isSpeaking := False, c_utterance := None\<rparr>)
       (if hasSpeechSynthesis p then synth_cancel w else w)"

definition stopCheckinVoice :: "platform \<Rightarrow> world \<Rightarrow> world" where
  "stopCheckinVoice p w =
     (let w1 = upd_c (\<lambda>c. c\<lparr>c_isListening := False\<rparr>) w;
          w2 = (case c_rec (checkin w1) of
                  None \<Rightarrow> w1
                | Some i \<Rightarrow> upd_c (\<lambda>c. c\<lparr>c_rec := None\<rparr>) (try_rec_stop p i w1));
          w3 = upd_c (\<lambda>c. c\<lparr>c_micRecording := False, c_statusActive := False\<rparr>) w2
      in setCheckinVoiceIndicator Idle w3)"

subsection \<open>Booking: status and stop functions\<close>

definition setBookingStatus :: "jsstring \<Rightarrow> world \<Rightarrow> world" where
  "setBookingStatus t w = upd_b (\<lambda>b. b\<lparr>b_statusText := t\<rparr>) w"

definition stopBookingSpeaking :: "platform \<Rightarrow> world \<Rightarrow> world" where
  "stopBookingSpeaking p w =
     upd_b (\<lambda>b. b\<lparr>b_isSpeaking := False, b_indicatorHidden := True\<rparr>)
       (if hasSpeechSynthesis p then synth_cancel w else w)"

definition stopBookingVoice :: "platform \<Rightarrow> world \<Rightarrow> world" where
  "stopBookingVoice p w =
     (let w1 = (case b_rec (booking w) of
                  None \<Rightarrow> w
                | Some i \<Rightarrow> upd_b (\<lambda>b. b\<lparr>b_rec := None\<rparr>) (try_rec_stop p i w))
      in upd_b (\<lambda>b. b\<lparr>b_isListening := False, b_indicatorHidden := True,
                      b_micActive := False\<rparr>) w1)"

subsection \<open>Check-in: text to speech, then the microphone\<close>

definition synth_done :: "nat \<Rightarrow> world \<Rightarrow> world" where
  "synth_done i w = w\<lparr>synthQueue := filter (\<lambda>u. u_id u \<noteq> i) (synthQueue w)\<rparr>"

definition add_timer :: "nat \<Rightarrow> task \<Rightarrow> world \<Rightarrow> world" where
  "add_timer ms t w = w\<lparr>timers := timers w @ [(ms, t)]\<rparr>"

definition checkinSpeakThenListen :: "platform \<Rightarrow> jsstring \<Rightarrow> world \<Rightarrow> world" where
  "checkinSpeakThenListen p text w =
     (if \<not> hasSpeechSynthesis p then w
      else
        let w1 = stopCheckinSpeaking p w;
            w2 = stopCheckinVoice p w1;
            w3 = setCheckinVoiceIndicator Speaking w2;
            u = \<lparr>u_id = nextId w3, u_owner = Checkin, u_text = text\<rparr>;
            w4 = upd_c (\<lambda>c. c\<lparr>c_utterance := Some (u_id u), c_isSpeaking := True\<rparr>)
                   (w3\<lparr>nextId := Suc (nextId w3)\<rparr>)
        in synth_speak u w4)"

text \<open>\<^verbatim>\<open>utterance.onend\<close> and \<^verbatim>\<open>utterance.onerror\<close> of the utterance with id \<open>i\<close>.\<close>

definition checkinUtterance_onend :: "nat \<Rightarrow> world \<Rightarrow> world" where
  "checkinUtterance_onend i w =
     (let w1 = upd_c (\<lambda>c. c\<lparr>c_isSpeaking := False, c_utterance := None\<rparr>) (synth_done i w)
      in if c_isAutoMode (checkin w1)
         then add_timer 400 TStartCheckinListening (setCheckinVoiceIndicator Idle w1)
         else setCheckinVoiceIndicator Idle w1)"

definition checkinUtterance_onerror :: "nat \<Rightarrow> world \<Rightarrow> world" where
  "checkinUtterance_onerror i w =
     setCheckinVoiceIndicator Idle
       (upd_c (\<lambda>c. c\<lparr>c_isSpeaking := False, c_utterance := None\<rparr>) (synth_done i w))"

definition startCheckinListening :: "platform \<Rightarrow> world \<Rightarrow> world" where
  "startCheckinListening p w =
     (if \<not> hasSpeechRecognition p \<or> c_isListening (checkin w) then w
      else
        let w1 = stopCheckinVoice p w;
            i = nextId w1;
            w2 = new_rec Checkin w1;
            w3 = upd_c (\<lambda>c. c\<lparr>c_isListening := True, c_rec := Some i\<rparr>) w2;
            w4 = setCheckinVoiceIndicator Listening w3;
            w5 = upd_c (\<lambda>c. c\<lparr>c_micRecording := True, c_statusActive := True\<rparr>) w4
        in if recStartThrows p then w5
           else w5\<lparr>recognizers := set_active i True (recognizers w5)\<rparr>)"

text \<open>
  The loop of \<^verbatim>\<open>onresult\<close> over \<^verbatim>\<open>event.results\<close> from \<^verbatim>\<open>event.resultIndex\<close>:
  the texts of the final results and of the interim results, each appended in order.
\<close>

fun collect :: "(jsstring \<times> bool) list \<Rightarrow> jsstring \<times> jsstring \<Rightarrow> jsstring \<times> jsstring" where
  "collect [] acc = acc"
| "collect ((t, isFinal) # rs) (fin, interim) =
     (if isFinal then collect rs (fin @ t, interim) else collect rs (fin, interim @ t))"

definition scan_event :: "sr_event \<Rightarrow> jsstring \<times> jsstring" where
  "scan_event ev = collect (drop (resultIndex ev) (results ev)) ([], [])"

definition checkinRec_onresult :: "nat \<Rightarrow> sr_event \<Rightarrow> world \<Rightarrow> world" where
  "checkinRec_onresult i ev w =
     (case find_rec i Checkin w of
        None \<Rightarrow> w
      | Some r \<Rightarrow>
          let fin = fst (scan_event ev);
              interim = snd (scan_event ev);
              w1 = w\<lparr>recognizers := set_final i fin (recognizers w)\<rparr>
          in upd_c (\<lambda>c. c\<lparr>c_input := fin @ interim,
                          c_statusText := (if interim \<noteq> [] then (js ''Hearing you'' @ ellipsis)
                                           else (js ''Listening'' @ ellipsis))\<rparr>) w1)"

definition checkinRec_onend :: "nat \<Rightarrow> world \<Rightarrow> world" where
  "checkinRec_onend i w =
     (case find_rec i Checkin w of
        None \<Rightarrow> w
      | Some r \<Rightarrow>
          let w1 = upd_c (\<lambda>c. c\<lparr>c_isListening := False, c_rec := None,
                               c_micRecording := False, c_statusActive := False\<rparr>)
                     (w\<lparr>recognizers := set_active i False (recognizers w)\<rparr>);
              w2 = setCheckinVoiceIndicator Idle w1
          in if trim (r_final r) \<noteq> [] \<and> c_isAutoMode (checkin w2)
             then add_timer 300 (TSendCheckinMessage i) w2
             else w2)"

definition checkinRec_onerror :: "nat \<Rightarrow> jsstring \<Rightarrow> world \<Rightarrow> world" where
  "checkinRec_onerror i err w =
     (case find_rec i Checkin w of
        None \<Rightarrow> w
      | Some r \<Rightarrow>
          let w1 = (if err = js ''not-allowed''
                    then w\<lparr>alerts := alerts w @
                      [js ''Microphone access was denied. Please allow microphone ''
                       @ js ''access to use voice input.'']\<rparr>
                    else w);
              w2 = upd_c (\<lambda>c. c\<lparr>c_isListening := False, c_rec := None,
                               c_micRecording := False, c_statusActive := False\<rparr>) w1
          in setCheckinVoiceIndicator Idle w2)"

definition toggleCheckinVoice :: "platform \<Rightarrow> world \<Rightarrow> world" where
  "toggleCheckinVoice p w =
     (if c_isListening (checkin w) then stopCheckinVoice p w
      else startCheckinListening p (stopCheckinSpeaking p w))"

definition updateAutoModeUI :: "world \<Rightarrow> world" where
  "updateAutoModeUI w =
     upd_c (\<lambda>c. c\<lparr>c_autoLabel := (if c_isAutoMode c then js ''Auto On''
                                    else js ''Auto Off'')\<rparr>) w"

definition toggleAutoMode :: "platform \<Rightarrow> world \<Rightarrow> world" where
  "toggleAutoMode p w =
     (let w1 = upd_c (\<lambda>c. c\<lparr>c_isAutoMode := \<not> c_isAutoMode c\<rparr>) w;
          w2 = (if \<not> c_isAutoMode (checkin w1)
                then stopCheckinVoice p (stopCheckinSpeaking p w1) else w1)
      in updateAutoModeUI w2)"

subsection \<open>Check-in: sending a message\<close>

text \<open>
  \<^verbatim>\<open>showCheckinTyping\<close> appends one more typing indicator to the chat;
  \<^verbatim>\<open>hideCheckinTyping\<close> removes one, if there is one. The state counts them.
\<close>

definition showCheckinTyping :: "world \<Rightarrow> world" where
  "showCheckinTyping w = upd_c (\<lambda>c. c\<lparr>c_typing := Suc (c_typing c)\<rparr>) w"

definition hideCheckinTyping :: "world \<Rightarrow> world" where
  "hideCheckinTyping w =
     upd_c (\<lambda>c. c\<lparr>c_typing := (case c_typing c of 0 \<Rightarrow> 0 | Suc n \<Rightarrow> n)\<rparr>) w"

text \<open>
  \<^verbatim>\<open>sendCheckinMessage\<close> is an \<^verbatim>\<open>async\<close> function: the part up to the
  \<^verbatim>\<open>await fetch\<close>, and the two ways it goes on, when a response has arrived and
  its body has been parsed, and when \<^verbatim>\<open>fetch\<close> or \<^verbatim>\<open>res.json()\<close> has thrown.

  A response is its status (\<^verbatim>\<open>res.ok\<close>) and the fields of its body. The function
  never reads the status: a response with an error status and a body that parses goes
  the way of a reply. A field that the body lacks reads as \<^verbatim>\<open>undefined\<close>, which a
  bubble shows and an utterance speaks as the empty text.
\<close>

record checkin_reply =
  res_ok :: bool
  reply :: jsstring
  api_key_invalid :: bool

definition sendCheckinMessage :: "jsstring option \<Rightarrow> world \<Rightarrow> world" where
  "sendCheckinMessage textOverride w =
     (let text = trim (case textOverride of Some t \<Rightarrow> t | None \<Rightarrow> c_input (checkin w))
      in if text = [] \<or> \<not> truthy_id (c_sessionId (checkin w)) then w
         else case c_sessionId (checkin w) of
           None \<Rightarrow> w
         | Some sid \<Rightarrow>
             let w1 = upd_c (\<lambda>c. c\<lparr>c_input := [],
                                  c_messages := c_messages c @ [(User, text)]\<rparr>) w;
                 w2 = upd_c (\<lambda>c. c\<lparr>c_sendDisabled := True\<rparr>) (showCheckinTyping w1)
             in w2\<lparr>requests := requests w2 @
                  [\<lparr>q_owner = Checkin, q_session = sid, q_message = text\<rparr>]\<rparr>)"

definition sendCheckinMessage_reply :: "platform \<Rightarrow> checkin_reply \<Rightarrow> world \<Rightarrow> world" where
  "sendCheckinMessage_reply p d w =
     (let w1 = hideCheckinTyping w;
          w2 = (if api_key_invalid d then w1\<lparr>apiKeyBanner := True\<rparr> else w1);
          w3 = upd_c (\<lambda>c. c\<lparr>c_messages := c_messages c @ [(Assistant, reply d)]\<rparr>) w2;
          w4 = (if c_isAutoMode (checkin w3) then checkinSpeakThenListen p (reply d) w3 else w3)
      in upd_c (\<lambda>c. c\<lparr>c_sendDisabled := False\<rparr>) w4)"

definition sendCheckinMessage_catch :: "world \<Rightarrow> world" where
  "sendCheckinMessage_catch w =
     upd_c (\<lambda>c. c\<lparr>c_messages := c_messages c @ [(Assistant, checkin_apology)],
                   c_sendDisabled := False\<rparr>)
       (hideCheckinTyping w)"

definition handleCheckinKey :: "platform \<Rightarrow> world \<Rightarrow> world" where
  "handleCheckinKey p w = sendCheckinMessage None (stopCheckinVoice p w)"

subsection \<open>Booking: text to speech, then the microphone\<close>

definition bookingSpeakThenListen :: "platform \<Rightarrow> jsstring \<Rightarrow> world \<Rightarrow> world" where
  "bookingSpeakThenListen p text w =
     (let w1 = stopBookingSpeaking p w
      in if \<not> hasSpeechSynthesis p
         then
           let w2 = setBookingStatus (js ''Ready'') w1
           in if b_isAutoMode (booking w2) then add_timer 400 TStartBookingListening w2
              else w2
         else
           let u = \<lparr>u_id = nextId w1, u_owner = Booking, u_text = text\<rparr>;
               w2 = upd_b (\<lambda>b. b\<lparr>b_utterance := Some (u_id u)\<rparr>)
                      (w1\<lparr>nextId := Suc (nextId w1)\<rparr>)
           in synth_speak u w2)"

definition bookingUtterance_onstart :: "nat \<Rightarrow> world \<Rightarrow> world" where
  "bookingUtterance_onstart i w =
     setBookingStatus (js ''Speaking'' @ ellipsis)
       (upd_b (\<lambda>b. b\<lparr>b_isSpeaking := True, b_indicatorHidden := False,
                       b_indicatorText := (js ''Aria is speaking'' @ ellipsis)\<rparr>) w)"

definition bookingUtterance_onend :: "nat \<Rightarrow> world \<Rightarrow> world" where
  "bookingUtterance_onend i w =
     (let w1 = upd_b (\<lambda>b. b\<lparr>b_isSpeaking := False, b_indicatorHidden := True\<rparr>)
                 (synth_done i w)
      in if b_isAutoMode (booking w1) then add_timer 400 TStartBookingListening w1 else w1)"

definition bookingUtterance_onerror :: "nat \<Rightarrow> world \<Rightarrow> world" where
  "bookingUtterance_onerror i w =
     upd_b (\<lambda>b. b\<lparr>b_isSpeaking := False, b_indicatorHidden := True\<rparr>) (synth_done i w)"

text \<open>
  \<^verbatim>\<open>bookingRec.start()\<close> is not inside a \<^verbatim>\<open>try\<close>: when it throws, the exception
  leaves the function, after the assignments before it.
\<close>

definition startBookingListening :: "platform \<Rightarrow> world \<Rightarrow> world" where
  "startBookingListening p w =
     (if \<not> hasSpeechRecognition p
      then setBookingStatus (js ''Voice not supported in this browser.'') w
      else if b_isListening (booking w) then w
      else
        let w1 = stopBookingVoice p w;
            i = nextId w1;
            w2 = upd_b (\<lambda>b. b\<lparr>b_rec := Some i\<rparr>) (new_rec Booking w1)
        in if recStartThrows p then w2\<lparr>uncaught := Suc (uncaught w2)\<rparr>
           else w2\<lparr>recognizers := set_active i True (recognizers w2)\<rparr>)"

definition bookingRec_onstart :: "nat \<Rightarrow> world \<Rightarrow> world" where
  "bookingRec_onstart i w =
     (case find_rec i Booking w of
        None \<Rightarrow> w
      | Some r \<Rightarrow>
          let w1 = upd_b (\<lambda>b. b\<lparr>b_isListening := True, b_indicatorHidden := False,
                               b_indicatorText := (js ''Listening'' @ ellipsis)\<rparr>) w;
              w2 = setBookingStatus (js ''Listening'' @ ellipsis) w1
          in upd_b (\<lambda>b. b\<lparr>b_micActive := True\<rparr>) w2)"

definition bookingRec_onresult :: "nat \<Rightarrow> sr_event \<Rightarrow> world \<Rightarrow> world" where
  "bookingRec_onresult i ev w =
     (case find_rec i Booking w of
        None \<Rightarrow> w
      | Some r \<Rightarrow>
          let fin = fst (scan_event ev);
              interim = snd (scan_event ev);
              w1 = w\<lparr>recognizers := set_final i fin (recognizers w)\<rparr>
          in upd_b (\<lambda>b. b\<lparr>b_input := str_or fin interim\<rparr>) w1)"

definition bookingRec_onend :: "nat \<Rightarrow> world \<Rightarrow> world" where
  "bookingRec_onend i w =
     (case find_rec i Booking w of
        None \<Rightarrow> w
      | Some r \<Rightarrow>
          let w1 = upd_b (\<lambda>b. b\<lparr>b_isListening := False, b_indicatorHidden := True\<rparr>)
                     (w\<lparr>recognizers := set_active i False (recognizers w)\<rparr>);
              w2 = setBookingStatus (js ''Ready'') w1;
              w3 = upd_b (\<lambda>b. b\<lparr>b_micActive := False\<rparr>) w2
          in if b_isAutoMode (booking w3) \<and> trim (r_final r) \<noteq> []
             then add_timer 300 (TSendBookingMessage i) w3
             else w3)"

definition bookingRec_onerror :: "nat \<Rightarrow> jsstring \<Rightarrow> world \<Rightarrow> world" where
  "bookingRec_onerror i err w =
     (case find_rec i Booking w of
        None \<Rightarrow> w
      | Some r \<Rightarrow>
          let w1 = upd_b (\<lambda>b. b\<lparr>b_isListening := False, b_indicatorHidden := True,
                               b_micActive := False\<rparr>) w
          in if err = js ''not-allowed''
             then w1\<lparr>alerts := alerts w1 @
                    [js ''Microphone access denied. Please allow microphone access.'']\<rparr>
             else w1)"

definition toggleBookingVoice :: "platform \<Rightarrow> world \<Rightarrow> world" where
  "toggleBookingVoice p w =
     (if b_isListening (booking w) then stopBookingVoice p w else startBookingListening p w)"

definition toggleBookingAutoMode :: "world \<Rightarrow> world" where
  "toggleBookingAutoMode w =
     upd_b (\<lambda>b. b\<lparr>b_autoLabel := (if b_isAutoMode b then js ''Auto On''
                                    else js ''Auto Off'')\<rparr>)
       (upd_b (\<lambda>b. b\<lparr>b_isAutoMode := \<not> b_isAutoMode b\<rparr>) w)"

subsection \<open>Booking: sending a message\<close>

text \<open>
  As in the check-in loop, \<^verbatim>\<open>sendBookingMessage\<close> never reads the status of the
  response.
\<close>

record booking_reply =
  b_res_ok :: bool
  response_text :: jsstring
  state :: jsstring
  booking_ref :: jsstring
  slot_time :: jsstring
  slot_date :: jsstring

definition showBookingConfirmed :: "platform \<Rightarrow> booking_reply \<Rightarrow> world \<Rightarrow> world" where
  "showBookingConfirmed p d w =
     (let w1 = stopBookingVoice p (stopBookingSpeaking p w);
          w2 = upd_b (\<lambda>b. b\<lparr>b_confirmedShown := True\<rparr>) w1;
          msg = js ''Your appointment has been confirmed. Your booking reference is ''
                @ booking_ref d @ js ''. See you at '' @ slot_time d @ js '' on ''
                @ slot_date d @ js ''.''
      in bookingSpeakThenListen p msg w2)"

definition sendBookingMessage :: "platform \<Rightarrow> jsstring option \<Rightarrow> world \<Rightarrow> world" where
  "sendBookingMessage p overrideText w =
     (let text = trim (case overrideText of Some t \<Rightarrow> t | None \<Rightarrow> b_input (booking w))
      in if text = [] \<or> \<not> truthy_id (b_sessionId (booking w)) then w
         else case b_sessionId (booking w) of
           None \<Rightarrow> w
         | Some sid \<Rightarrow>
             let w1 = stopBookingVoice p (upd_b (\<lambda>b. b\<lparr>b_input := []\<rparr>) w);
                 w2 = upd_b (\<lambda>b. b\<lparr>b_messages := b_messages b @ [(User, text)]\<rparr>) w1;
                 w3 = setBookingStatus (js ''Processing'' @ ellipsis) w2
             in w3\<lparr>requests := requests w3 @
                  [\<lparr>q_owner = Booking, q_session = sid, q_message = text\<rparr>]\<rparr>)"

definition sendBookingMessage_reply :: "platform \<Rightarrow> booking_reply \<Rightarrow> world \<Rightarrow> world" where
  "sendBookingMessage_reply p d w =
     (let w1 = upd_b (\<lambda>b. b\<lparr>b_messages := b_messages b @ [(Assistant, response_text d)]\<rparr>) w
      in if state d = js ''confirmed'' then showBookingConfirmed p d w1
         else if state d = js ''cancelled''
         then upd_b (\<lambda>b. b\<lparr>b_messages := b_messages b @
                [(Assistant,
                  js ''Your booking has been cancelled. Feel free to start a new one.'')]\<rparr>)
                w1
         else bookingSpeakThenListen p (response_text d) w1)"

definition sendBookingMessage_catch :: "world \<Rightarrow> world" where
  "sendBookingMessage_catch w =
     upd_b (\<lambda>b. b\<lparr>b_messages := b_messages b @
              [(Assistant, booking_apology)]\<rparr>) w"

definition handleBookingKey :: "platform \<Rightarrow> world \<Rightarrow> world" where
  "handleBookingKey p w = sendBookingMessage p None w"

subsection \<open>Timers\<close>

text \<open>
  Running a callback of \<^verbatim>\<open>setTimeout\<close>. The submit callbacks evaluate
  \<^verbatim>\<open>finalTranscript.trim()\<close> at this moment.
\<close>

definition run_task :: "platform \<Rightarrow> task \<Rightarrow> world \<Rightarrow> world" where
  "run_task p t w =
     (case t of
        TStartCheckinListening \<Rightarrow> startCheckinListening p w
      | TStartBookingListening \<Rightarrow> startBookingListening p w
      | TSendCheckinMessage i \<Rightarrow>
          (case find_rec i Checkin w of
             None \<Rightarrow> w
           | Some r \<Rightarrow> sendCheckinMessage (Some (trim (r_final r))) w)
      | TSendBookingMessage i \<Rightarrow>
          (case find_rec i Booking w of
             None \<Rightarrow> w
           | Some r \<Rightarrow> sendBookingMessage p (Some (trim (r_final r))) w))"

text \<open>
  The first waiting callback runs and leaves the list. The runs below never have more
  than one callback waiting, so the order of expiry plays no part.
\<close>

definition fire_timer :: "platform \<Rightarrow> world \<Rightarrow> world" where
  "fire_timer p w =
     (case timers w of
        [] \<Rightarrow> w
      | (ms, t) # ts \<Rightarrow> run_task p t (w\<lparr>timers := ts\<rparr>))"

subsection \<open>Starting a session, typing\<close>

text \<open>
  \<^verbatim>\<open>handleCheckinSetup\<close> and \<^verbatim>\<open>handleBookingSetup\<close> once the backend has
  created the session: the session id is stored, the chat is emptied (its bubbles and
  the typing indicators in it), the greeting is shown and spoken. The check-in loop
  switches AutoMode on and speaks only in AutoMode; the booking loop speaks always.
\<close>

definition handleCheckinSetup_started ::
    "platform \<Rightarrow> nat \<Rightarrow> jsstring \<Rightarrow> bool \<Rightarrow> world \<Rightarrow> world" where
  "handleCheckinSetup_started p sid greeting keyInvalid w =
     (let w1 = upd_c (\<lambda>c. c\<lparr>c_isAutoMode := True, c_sessionId := Some sid\<rparr>) w;
          w2 = (if keyInvalid then w1\<lparr>apiKeyBanner := True\<rparr> else w1);
          w3 = updateAutoModeUI (upd_c (\<lambda>c. c\<lparr>c_messages := [], c_typing := 0,
                                              c_input := []\<rparr>) w2);
          w4 = upd_c (\<lambda>c. c\<lparr>c_messages := c_messages c @ [(Assistant, greeting)]\<rparr>) w3
      in if c_isAutoMode (checkin w4) then checkinSpeakThenListen p greeting w4 else w4)"

definition handleBookingSetup_started :: "platform \<Rightarrow> nat \<Rightarrow> jsstring \<Rightarrow> world \<Rightarrow> world" where
  "handleBookingSetup_started p sid welcome w =
     (let w1 = upd_b (\<lambda>b. b\<lparr>b_sessionId := Some sid, b_messages := []\<rparr>) w;
          w2 = upd_b (\<lambda>b. b\<lparr>b_messages := b_messages b @ [(Assistant, welcome)]\<rparr>) w1
      in bookingSpeakThenListen p welcome w2)"

text \<open>
  \<^verbatim>\<open>backToCheckinSetup\<close>: both stops, then the session id is forgotten.
\<close>

definition backToCheckinSetup :: "platform \<Rightarrow> world \<Rightarrow> world" where
  "backToCheckinSetup p w =
     upd_c (\<lambda>c. c\<lparr>c_sessionId := None\<rparr>) (stopCheckinVoice p (stopCheckinSpeaking p w))"

text \<open>The user edits the text of the input field.\<close>

definition typeCheckinInput :: "jsstring \<Rightarrow> world \<Rightarrow> world" where
  "typeCheckinInput t w = upd_c (\<lambda>c. c\<lparr>c_input := t\<rparr>) w"

section \<open>Properties\<close>

subsection \<open>Notions used by the properties\<close>

text \<open>A loop with no job and no indicator of a job.\<close>

definition checkin_idle :: "world \<Rightarrow> bool" where
  "checkin_idle w =
     (let c = checkin w
      in \<not> c_isSpeaking c \<and> \<not> c_isListening c \<and> c_rec c = None \<and> c_utterance c = None \<and>
         c_indicatorHidden c \<and> \<not> c_micRecording c \<and> \<not> c_statusActive c)"

definition booking_idle :: "world \<Rightarrow> bool" where
  "booking_idle w =
     (let b = booking w
      in \<not> b_isSpeaking b \<and> \<not> b_isListening b \<and> b_rec b = None \<and>
         b_indicatorHidden b \<and> \<not> b_micActive b)"

text \<open>What belongs to one loop, outside its own variables and indicators.\<close>

fun task_owner :: "task \<Rightarrow> owner" where
  "task_owner TStartCheckinListening = Checkin"
| "task_owner TStartBookingListening = Booking"
| "task_owner (TSendCheckinMessage i) = Checkin"
| "task_owner (TSendBookingMessage i) = Booking"

definition checkin_view ::
    "world \<Rightarrow> checkin_loop \<times> recognizer list \<times> (nat \<times> task) list \<times> request list" where
  "checkin_view w =
     (checkin w, filter (\<lambda>r. r_owner r = Checkin) (recognizers w),
      filter (\<lambda>t. task_owner (snd t) = Checkin) (timers w),
      filter (\<lambda>q. q_owner q = Checkin) (requests w))"

definition booking_view ::
    "world \<Rightarrow> booking_loop \<times> recognizer list \<times> (nat \<times> task) list \<times> request list" where
  "booking_view w =
     (booking w, filter (\<lambda>r. r_owner r = Booking) (recognizers w),
      filter (\<lambda>t. task_owner (snd t) = Booking) (timers w),
      filter (\<lambda>q. q_owner q = Booking) (requests w))"

text \<open>The recognizer a loop holds was created by that loop.\<close>

definition handles_ok :: "world \<Rightarrow> bool" where
  "handles_ok w =
     ((case c_rec (checkin w) of
         None \<Rightarrow> True
       | Some i \<Rightarrow> list_all (\<lambda>r. r_id r = i \<longrightarrow> r_owner r = Checkin) (recognizers w)) \<and>
      (case b_rec (booking w) of
         None \<Rightarrow> True
       | Some i \<Rightarrow> list_all (\<lambda>r. r_id r = i \<longrightarrow> r_owner r = Booking) (recognizers w)))"

text \<open>The result events of one listening session, delivered in order.\<close>

definition checkin_results :: "nat \<Rightarrow> sr_event list \<Rightarrow> world \<Rightarrow> world" where
  "checkin_results i evs w = foldl (\<lambda>v ev. checkinRec_onresult i ev v) w evs"

definition booking_results :: "nat \<Rightarrow> sr_event list \<Rightarrow> world \<Rightarrow> world" where
  "booking_results i evs w = foldl (\<lambda>v ev. bookingRec_onresult i ev v) w evs"

definition finalTranscript :: "nat \<Rightarrow> owner \<Rightarrow> world \<Rightarrow> jsstring option" where
  "finalTranscript i ow w = map_option r_final (find_rec i ow w)"

text \<open>
  The specification's transcript of a session: the texts of all results the engine has
  marked final, in the order of the engine's result list. Every event carries the whole
  list, so the last event has it.
\<close>

definition engineFinalSegments :: "sr_event list \<Rightarrow> jsstring" where
  "engineFinalSegments evs =
     (if evs = [] then [] else concat (map fst (filter snd (results (last evs)))))"

text \<open>The final results an event reports from its \<^verbatim>\<open>resultIndex\<close> on.\<close>

definition reportedFinals :: "sr_event \<Rightarrow> jsstring" where
  "reportedFinals ev = concat (map fst (filter snd (drop (resultIndex ev) (results ev))))"

subsection \<open>Platforms and runs used as examples\<close>

definition no_synthesis :: platform where
  "no_synthesis = browser\<lparr>hasSpeechSynthesis := False\<rparr>"

definition no_recognition :: platform where
  "no_recognition = browser\<lparr>hasSpeechRecognition := False\<rparr>"

definition stop_throws :: platform where
  "stop_throws = browser\<lparr>recStopThrows := True\<rparr>"

text \<open>The check-in session 7 has started and its greeting is being spoken.\<close>

definition checkin_greeting :: world where
  "checkin_greeting = handleCheckinSetup_started browser 7 (js ''Hello'') False world0"

text \<open>The greeting has ended and, 400 ms later, the microphone is open.\<close>

definition checkin_listening :: world where
  "checkin_listening = fire_timer browser (checkinUtterance_onend 0 checkin_greeting)"

definition heard_headache :: sr_event where
  "heard_headache = \<lparr>resultIndex = 0, results = [(js ''I have a headache '', True)]\<rparr>"

definition checkin_heard :: world where
  "checkin_heard = checkinRec_onresult 1 heard_headache checkin_listening"

text \<open>The same for the booking session 9; the engine reports when it starts.\<close>

definition booking_welcome :: world where
  "booking_welcome = handleBookingSetup_started browser 9 (js ''Welcome'') world0"

definition booking_speaking :: world where
  "booking_speaking = bookingUtterance_onstart 0 booking_welcome"

definition booking_listening :: world where
  "booking_listening =
     bookingRec_onstart 1 (fire_timer browser (bookingUtterance_onend 0 booking_speaking))"

definition booking_heard :: world where
  "booking_heard = bookingRec_onresult 1 heard_headache booking_listening"

text \<open>The user taps the microphone button of the booking chat during the welcome.\<close>

definition booking_mic_tap :: world where
  "booking_mic_tap = bookingRec_onstart 1 (toggleBookingVoice browser booking_speaking)"

text \<open>
  The check-in user types and sends a message during the greeting. The greeting ends;
  the reply arrives within the 400 ms before the timer runs, and is spoken; then the
  timer runs.
\<close>

definition checkin_typed_sent :: world where
  "checkin_typed_sent = handleCheckinKey browser (typeCheckinInput (js ''hi'') checkin_greeting)"

definition checkin_reply_race :: world where
  "checkin_reply_race =
     fire_timer browser
       (sendCheckinMessage_reply browser
          \<lparr>res_ok = True, reply = js ''Go on'', api_key_invalid = False\<rparr>
          (checkinUtterance_onend 0 checkin_typed_sent))"


text \<open>
  A final result, then an event that reports only a new interim result behind it.
\<close>

definition final_then_interim :: "sr_event list" where
  "final_then_interim =
     [\<lparr>resultIndex = 0, results = [(js ''hello'', True)]\<rparr>,
      \<lparr>resultIndex = 1, results = [(js ''hello'', True), (js ''wor'', False)]\<rparr>]"

text \<open>
  A browser with speech synthesis and without speech recognition: the check-in greeting
  is spoken, ends, and the timer runs.
\<close>

definition greeting_without_recognition :: world where
  "greeting_without_recognition =
     handleCheckinSetup_started no_recognition 7 (js ''Hello'') False world0"

definition after_greeting_without_recognition :: world where
  "after_greeting_without_recognition =
     fire_timer no_recognition (checkinUtterance_onend 0 greeting_without_recognition)"



text \<open>A browser without speech synthesis: the welcome of the booking session.\<close>

definition booking_without_synthesis :: world where
  "booking_without_synthesis = handleBookingSetup_started no_synthesis 9 (js ''Welcome'') world0"

definition checkin_without_synthesis :: world where
  "checkin_without_synthesis =
     handleCheckinSetup_started no_synthesis 7 (js ''Hello'') False world0"

text \<open>
  In the browser without speech recognition, the user taps the microphone button during
  the greeting.
\<close>

definition mic_tap_without_recognition :: world where
  "mic_tap_without_recognition = toggleCheckinVoice no_recognition greeting_without_recognition"

text \<open>
  The message typed during the greeting is answered after the microphone has opened:
  the reply is spoken, and the listening session that it has stopped is about to end.
\<close>

definition checkin_spoken_over :: world where
  "checkin_spoken_over =
     sendCheckinMessage_reply browser
       \<lparr>res_ok = True, reply = js ''Go on'', api_key_invalid = False\<rparr>
       (fire_timer browser (checkinUtterance_onend 0 checkin_typed_sent))"

text \<open>
  The patient's sentence has become final and the user goes back to the setup form
  before the session has ended; then it ends, and the timer runs.
\<close>

definition checkin_left :: world where
  "checkin_left = checkinRec_onend 1 (backToCheckinSetup browser checkin_heard)"


section \<open>Auxiliary facts\<close>

lemmas state_defs =
  upd_c_def upd_b_def synth_cancel_def synth_speak_def synth_done_def add_timer_def
  try_rec_stop_def new_rec_def setCheckinVoiceIndicator_def setBookingStatus_def
  showCheckinTyping_def hideCheckinTyping_def

lemmas stop_defs =
  stopCheckinSpeaking_def stopCheckinVoice_def stopBookingSpeaking_def stopBookingVoice_def

subsection \<open>Strings and recognizers\<close>

lemma dropWhile_unchanged: "xs = [] \<or> \<not> P (hd xs) \<Longrightarrow> dropWhile P xs = xs"
  by (cases xs) auto

lemma dropWhile_head: "dropWhile P xs = [] \<or> \<not> P (hd (dropWhile P xs))"
  using hd_dropWhile by blast

lemma dropWhile_last: "dropWhile P xs \<noteq> [] \<Longrightarrow> last (dropWhile P xs) = last xs"
  by (induction xs) auto

lemma trim_trim: "trim (trim s) = trim s"
proof -
  define u where "u = dropWhile is_ws s"
  define v where "v = dropWhile is_ws (rev u)"
  have t: "trim s = rev v"
    by (simp add: trim_def u_def v_def)
  have hv: "v = [] \<or> \<not> is_ws (hd v)"
    unfolding v_def by (rule dropWhile_head)
  have hu: "u = [] \<or> \<not> is_ws (hd u)"
    unfolding u_def by (rule dropWhile_head)
  have lv: "v = [] \<or> \<not> is_ws (last v)"
  proof (cases "v = []")
    case True
    then show ?thesis by simp
  next
    case False
    then have "last v = last (rev u)"
      unfolding v_def by (rule dropWhile_last)
    moreover from False have "u \<noteq> []"
      by (auto simp: v_def)
    ultimately show ?thesis
      using hu by (simp add: last_rev)
  qed
  have at_end: "dropWhile is_ws (rev v) = rev v"
    using lv by (intro dropWhile_unchanged) (auto simp: hd_rev)
  have at_start: "dropWhile is_ws v = v"
    using hv by (intro dropWhile_unchanged) auto
  show ?thesis
    unfolding t by (simp add: trim_def at_end at_start)
qed

lemma collect_concat:
  "collect rs (fin, interim) =
     (fin @ concat (map fst (filter snd rs)),
      interim @ concat (map fst (filter (\<lambda>x. \<not> snd x) rs)))"
  by (induction rs arbitrary: fin interim) auto

lemma scan_event_finals: "fst (scan_event ev) = reportedFinals ev"
  by (simp add: scan_event_def reportedFinals_def collect_concat)

lemma find_set_active:
  "find (\<lambda>r. r_id r = i \<and> r_owner r = ow) (set_active j a rs) =
   map_option (\<lambda>r. if r_id r = j then r\<lparr>r_active := a\<rparr> else r)
     (find (\<lambda>r. r_id r = i \<and> r_owner r = ow) rs)"
  by (induction rs) (auto simp: set_active_def)

lemma find_set_final:
  "find (\<lambda>r. r_id r = i \<and> r_owner r = ow) (set_final j t rs) =
   map_option (\<lambda>r. if r_id r = j then r\<lparr>r_final := t\<rparr> else r)
     (find (\<lambda>r. r_id r = i \<and> r_owner r = ow) rs)"
  by (induction rs) (auto simp: set_final_def)

subsection \<open>The stop functions\<close>

lemma stopCheckinVoice_idle: "checkin_idle w \<Longrightarrow> stopCheckinVoice p w = w"
  by (cases w, cases "checkin w") (simp add: checkin_idle_def stop_defs state_defs)

lemma stopCheckinSpeaking_idle:
  "checkin_idle w \<Longrightarrow> synthQueue w = [] \<Longrightarrow> stopCheckinSpeaking p w = w"
  by (cases w, cases "checkin w") (simp add: checkin_idle_def stop_defs state_defs)

lemma stopBookingVoice_idle: "booking_idle w \<Longrightarrow> stopBookingVoice p w = w"
  by (cases w, cases "booking w") (simp add: booking_idle_def stop_defs state_defs)

lemma stopBookingSpeaking_idle:
  "booking_idle w \<Longrightarrow> synthQueue w = [] \<Longrightarrow> stopBookingSpeaking p w = w"
  by (cases w, cases "booking w") (simp add: booking_idle_def stop_defs state_defs)

lemma stopCheckinVoice_clears:
  "c_rec (checkin (stopCheckinVoice p w)) = None \<and>
   \<not> c_isListening (checkin (stopCheckinVoice p w)) \<and>
   c_indicatorHidden (checkin (stopCheckinVoice p w)) \<and>
   \<not> c_micRecording (checkin (stopCheckinVoice p w)) \<and>
   \<not> c_statusActive (checkin (stopCheckinVoice p w)) \<and>
   uncaught (stopCheckinVoice p w) = uncaught w"
  by (simp add: stop_defs state_defs Let_def split: option.splits)

lemma stopBookingVoice_clears:
  "b_rec (booking (stopBookingVoice p w)) = None \<and>
   \<not> b_isListening (booking (stopBookingVoice p w)) \<and>
   b_indicatorHidden (booking (stopBookingVoice p w)) \<and>
   \<not> b_micActive (booking (stopBookingVoice p w)) \<and>
   uncaught (stopBookingVoice p w) = uncaught w"
  by (simp add: stop_defs state_defs Let_def split: option.splits)

lemma stopSpeaking_clears:
  "\<not> c_isSpeaking (checkin (stopCheckinSpeaking p w)) \<and>
   c_utterance (checkin (stopCheckinSpeaking p w)) = None \<and>
   c_indicatorHidden (checkin (stopCheckinSpeaking p w)) = c_indicatorHidden (checkin w) \<and>
   c_indicatorText (checkin (stopCheckinSpeaking p w)) = c_indicatorText (checkin w) \<and>
   uncaught (stopCheckinSpeaking p w) = uncaught w \<and>
   \<not> b_isSpeaking (booking (stopBookingSpeaking p w)) \<and>
   b_indicatorHidden (booking (stopBookingSpeaking p w)) \<and>
   uncaught (stopBookingSpeaking p w) = uncaught w"
  by (simp add: stop_defs state_defs)

section \<open>The claims\<close>

text \<open>
  What the stop functions do. Called on a loop in which nothing is active, each
  returns the state it was given: \<^verbatim>\<open>stopCheckinVoice\<close> and \<^verbatim>\<open>stopBookingVoice\<close>
  when their loop is idle, \<^verbatim>\<open>stopCheckinSpeaking\<close> and \<^verbatim>\<open>stopBookingSpeaking\<close> when
  their loop is idle and the speech queue is empty. In every state and on every
  platform, so also when a session is active and \<^verbatim>\<open>rec.stop()\<close> throws, the two
  voice stops leave the recognizer handle released, the listening flag off and the
  indicator, the microphone button and the status bar cleared, and no exception
  escapes. The two speaking stops leave the speaking flag off;
  \<^verbatim>\<open>stopBookingSpeaking\<close> hides the indicator, \<^verbatim>\<open>stopCheckinSpeaking\<close> leaves the
  indicator as it was.
\<close>

lemma stop_functions_effect:
  "(checkin_idle w \<longrightarrow> stopCheckinVoice p w = w) \<and>
   (checkin_idle w \<and> synthQueue w = [] \<longrightarrow> stopCheckinSpeaking p w = w) \<and>
   (booking_idle w \<longrightarrow> stopBookingVoice p w = w) \<and>
   (booking_idle w \<and> synthQueue w = [] \<longrightarrow> stopBookingSpeaking p w = w) \<and>
   (c_rec (checkin (stopCheckinVoice p w)) = None \<and>
    \<not> c_isListening (checkin (stopCheckinVoice p w)) \<and>
    c_indicatorHidden (checkin (stopCheckinVoice p w)) \<and>
    \<not> c_micRecording (checkin (stopCheckinVoice p w)) \<and>
    \<not> c_statusActive (checkin (stopCheckinVoice p w)) \<and>
    uncaught (stopCheckinVoice p w) = uncaught w) \<and>
   (b_rec (booking (stopBookingVoice p w)) = None \<and>
    \<not> b_isListening (booking (stopBookingVoice p w)) \<and>
    b_indicatorHidden (booking (stopBookingVoice p w)) \<and>
    \<not> b_micActive (booking (stopBookingVoice p w)) \<and>
    uncaught (stopBookingVoice p w) = uncaught w) \<and>
   (\<not> c_isSpeaking (checkin (stopCheckinSpeaking p w)) \<and>
    c_utterance (checkin (stopCheckinSpeaking p w)) = None \<and>
    c_indicatorHidden (checkin (stopCheckinSpeaking p w)) = c_indicatorHidden (checkin w) \<and>
    c_indicatorText (checkin (stopCheckinSpeaking p w)) = c_indicatorText (checkin w) \<and>
    \<not> b_isSpeaking (booking (stopBookingSpeaking p w)) \<and>
    b_indicatorHidden (booking (stopBookingSpeaking p w)))"
  using stopCheckinVoice_idle stopCheckinSpeaking_idle stopBookingVoice_idle
    stopBookingSpeaking_idle stopCheckinVoice_clears stopBookingVoice_clears
    stopSpeaking_clears
  by blast

text \<open>
  On the empty page the four stops change nothing; with the check-in microphone open,
  the booking microphone open and an engine whose \<^verbatim>\<open>stop\<close> throws, the handles are
  released all the same.
\<close>

lemma stop_functions_effect_example:
  "checkin_idle world0 \<and> booking_idle world0 \<and> synthQueue world0 = [] \<and>
   stopCheckinVoice stop_throws world0 = world0 \<and>
   stopCheckinSpeaking stop_throws world0 = world0 \<and>
   stopBookingVoice stop_throws world0 = world0 \<and>
   stopBookingSpeaking stop_throws world0 = world0 \<and>
   recStopThrows stop_throws \<and>
   c_rec (checkin checkin_listening) = Some 1 \<and>
   c_isListening (checkin checkin_listening) \<and>
   c_rec (checkin (stopCheckinVoice stop_throws checkin_listening)) = None \<and>
   \<not> c_isListening (checkin (stopCheckinVoice stop_throws checkin_listening)) \<and>
   c_indicatorHidden (checkin (stopCheckinVoice stop_throws checkin_listening)) \<and>
   b_rec (booking booking_listening) = Some 1 \<and>
   b_isListening (booking booking_listening) \<and>
   b_rec (booking (stopBookingVoice stop_throws booking_listening)) = None \<and>
   \<not> b_isListening (booking (stopBookingVoice stop_throws booking_listening)) \<and>
   b_indicatorHidden (booking (stopBookingVoice stop_throws booking_listening))"
proof -
  have idle: "checkin_idle world0" "booking_idle world0" "synthQueue world0 = []"
    by code_simp+
  have active: "recStopThrows stop_throws" "c_rec (checkin checkin_listening) = Some 1"
    "c_isListening (checkin checkin_listening)" "b_rec (booking booking_listening) = Some 1"
    "b_isListening (booking booking_listening)"
    by code_simp+
  show ?thesis
    using idle active
      stop_functions_effect [of world0 stop_throws]
      stop_functions_effect [of checkin_listening stop_throws]
      stop_functions_effect [of booking_listening stop_throws]
    by simp
qed

text \<open>
  C9. The claim does not hold of the code: a stop of an active job has to clear the
  indicator of that job, and \<^verbatim>\<open>stopCheckinSpeaking\<close> does not. While the check-in
  greeting is spoken, \<^verbatim>\<open>stopCheckinSpeaking\<close> cancels the speech and clears the flag
  and the utterance handle, and the indicator goes on showing that Aria is speaking.
  A tap on the microphone button in a browser without speech recognition ends in this
  state: \<^verbatim>\<open>toggleCheckinVoice\<close> stops the speech, and \<^verbatim>\<open>startCheckinListening\<close>
  returns at once. The sibling \<^verbatim>\<open>stopBookingSpeaking\<close> hides its indicator.
\<close>

theorem stop_speaking_leaves_indicator:
  "c_isSpeaking (checkin greeting_without_recognition) \<and>
   \<not> c_indicatorHidden (checkin greeting_without_recognition) \<and>
   \<not> c_isSpeaking (checkin (stopCheckinSpeaking no_recognition greeting_without_recognition)) \<and>
   c_utterance (checkin (stopCheckinSpeaking no_recognition greeting_without_recognition))
     = None \<and>
   synthQueue (stopCheckinSpeaking no_recognition greeting_without_recognition) = [] \<and>
   \<not> c_indicatorHidden
     (checkin (stopCheckinSpeaking no_recognition greeting_without_recognition)) \<and>
   c_indicatorText (checkin (stopCheckinSpeaking no_recognition greeting_without_recognition))
     = js ''Aria is speaking'' @ ellipsis \<and>
   \<not> c_isSpeaking (checkin mic_tap_without_recognition) \<and>
   \<not> c_isListening (checkin mic_tap_without_recognition) \<and>
   synthQueue mic_tap_without_recognition = [] \<and>
   \<not> c_indicatorHidden (checkin mic_tap_without_recognition) \<and>
   c_indicatorText (checkin mic_tap_without_recognition) = js ''Aria is speaking'' @ ellipsis \<and>
   b_isSpeaking (booking booking_speaking) \<and>
   \<not> b_indicatorHidden (booking booking_speaking) \<and>
   \<not> b_isSpeaking (booking (stopBookingSpeaking browser booking_speaking)) \<and>
   b_indicatorHidden (booking (stopBookingSpeaking browser booking_speaking))"
  by code_simp

text \<open>
  C10. \<^verbatim>\<open>sendCheckinMessage\<close> and \<^verbatim>\<open>sendBookingMessage\<close> return the state they
  were given (no bubble, no request, no change of the loop) when the text, the argument
  or else the input field, is empty after trimming, or when the session id is not set.
\<close>

theorem send_noop_without_text_or_session:
  "(trim (case t of Some x \<Rightarrow> x | None \<Rightarrow> c_input (checkin w)) = [] \<or>
      \<not> truthy_id (c_sessionId (checkin w)) \<longrightarrow> sendCheckinMessage t w = w) \<and>
   (trim (case t of Some x \<Rightarrow> x | None \<Rightarrow> b_input (booking w)) = [] \<or>
      \<not> truthy_id (b_sessionId (booking w)) \<longrightarrow> sendBookingMessage p t w = w)"
  by (simp add: sendCheckinMessage_def sendBookingMessage_def Let_def)

text \<open>
  Blank text in the running sessions, and a text on the empty page, which has no
  session.
\<close>

theorem send_noop_without_text_or_session_witness:
  "trim [0x20, 0x09] = [] \<and>
   truthy_id (c_sessionId (checkin checkin_listening)) \<and>
   truthy_id (b_sessionId (booking booking_listening)) \<and>
   sendCheckinMessage (Some [0x20, 0x09]) checkin_listening = checkin_listening \<and>
   sendBookingMessage browser (Some [0x20, 0x09]) booking_listening
     = booking_listening \<and>
   trim (js ''hello'') = js ''hello'' \<and>
   \<not> truthy_id (c_sessionId (checkin world0)) \<and>
   \<not> truthy_id (b_sessionId (booking world0)) \<and>
   sendCheckinMessage (Some (js ''hello'')) world0 = world0 \<and>
   sendBookingMessage browser (Some (js ''hello'')) world0 = world0"
proof -
  have blank: "trim [0x20, 0x09] = []" "trim (js ''hello'') = js ''hello''"
    by code_simp+
  have ids: "truthy_id (c_sessionId (checkin checkin_listening))"
    "truthy_id (b_sessionId (booking booking_listening))"
    "\<not> truthy_id (c_sessionId (checkin world0))"
    "\<not> truthy_id (b_sessionId (booking world0))"
    by code_simp+
  show ?thesis
    using blank ids
      send_noop_without_text_or_session
        [where t = "Some [0x20, 0x09]" and w = checkin_listening and p = browser]
      send_noop_without_text_or_session
        [where t = "Some [0x20, 0x09]" and w = booking_listening and p = browser]
      send_noop_without_text_or_session
        [where t = "Some (js ''hello'')" and w = world0 and p = browser]
    by simp
qed

subsection \<open>The end of a listening session\<close>

lemma checkinRec_onend_effect:
  "find_rec i Checkin w = Some r \<Longrightarrow>
   timers (checkinRec_onend i w) =
     (if trim (r_final r) \<noteq> [] \<and> c_isAutoMode (checkin w)
      then timers w @ [(300, TSendCheckinMessage i)] else timers w) \<and>
   \<not> c_isListening (checkin (checkinRec_onend i w)) \<and>
   c_rec (checkin (checkinRec_onend i w)) = None \<and>
   c_indicatorHidden (checkin (checkinRec_onend i w)) \<and>
   \<not> c_micRecording (checkin (checkinRec_onend i w)) \<and>
   \<not> c_statusActive (checkin (checkinRec_onend i w)) \<and>
   c_isSpeaking (checkin (checkinRec_onend i w)) = c_isSpeaking (checkin w) \<and>
   c_utterance (checkin (checkinRec_onend i w)) = c_utterance (checkin w) \<and>
   c_sessionId (checkin (checkinRec_onend i w)) = c_sessionId (checkin w) \<and>
   requests (checkinRec_onend i w) = requests w \<and>
   alerts (checkinRec_onend i w) = alerts w \<and>
   uncaught (checkinRec_onend i w) = uncaught w"
  by (simp add: checkinRec_onend_def state_defs Let_def)

lemma bookingRec_onend_effect:
  "find_rec i Booking w = Some r \<Longrightarrow>
   timers (bookingRec_onend i w) =
     (if trim (r_final r) \<noteq> [] \<and> b_isAutoMode (booking w)
      then timers w @ [(300, TSendBookingMessage i)] else timers w) \<and>
   \<not> b_isListening (booking (bookingRec_onend i w)) \<and>
   b_indicatorHidden (booking (bookingRec_onend i w)) \<and>
   \<not> b_micActive (booking (bookingRec_onend i w)) \<and>
   b_statusText (booking (bookingRec_onend i w)) = js ''Ready'' \<and>
   b_isSpeaking (booking (bookingRec_onend i w)) = b_isSpeaking (booking w) \<and>
   b_sessionId (booking (bookingRec_onend i w)) = b_sessionId (booking w) \<and>
   requests (bookingRec_onend i w) = requests w \<and>
   alerts (bookingRec_onend i w) = alerts w \<and>
   uncaught (bookingRec_onend i w) = uncaught w"
  by (simp add: bookingRec_onend_def state_defs Let_def)

lemma checkinRec_onend_idle_iff:
  "find_rec i Checkin w = Some r \<Longrightarrow>
   checkin_idle (checkinRec_onend i w) =
     (\<not> c_isSpeaking (checkin w) \<and> c_utterance (checkin w) = None)"
  using checkinRec_onend_effect [of i w r] by (auto simp: checkin_idle_def Let_def)

lemma checkinRec_onend_find:
  "find_rec i Checkin w = Some r \<Longrightarrow>
   find_rec i Checkin (checkinRec_onend i w) = Some (r\<lparr>r_active := False\<rparr>)"
  by (auto simp: checkinRec_onend_def state_defs Let_def find_rec_def find_set_active
      dest: find_Some_iff [THEN iffD1])

lemma bookingRec_onend_find:
  "find_rec i Booking w = Some r \<Longrightarrow>
   find_rec i Booking (bookingRec_onend i w) = Some (r\<lparr>r_active := False\<rparr>)"
  by (auto simp: bookingRec_onend_def state_defs Let_def find_rec_def find_set_active
      dest: find_Some_iff [THEN iffD1])

lemma checkin_submission_runs:
  assumes r: "find_rec i Checkin w = Some r"
    and s: "trim (r_final r) \<noteq> []" "c_sessionId (checkin w) = Some sid" "sid \<noteq> 0"
  shows "requests (run_task p (TSendCheckinMessage i) (checkinRec_onend i w)) =
     requests w @ [\<lparr>q_owner = Checkin, q_session = sid, q_message = trim (r_final r)\<rparr>]"
  using s checkinRec_onend_effect [OF r]
  by (simp add: run_task_def checkinRec_onend_find [OF r] sendCheckinMessage_def trim_trim
      truthy_id_def showCheckinTyping_def upd_c_def Let_def)

lemma booking_submission_runs:
  assumes r: "find_rec i Booking w = Some r"
    and s: "trim (r_final r) \<noteq> []" "b_sessionId (booking w) = Some sid" "sid \<noteq> 0"
  shows "requests (run_task p (TSendBookingMessage i) (bookingRec_onend i w)) =
     requests w @ [\<lparr>q_owner = Booking, q_session = sid, q_message = trim (r_final r)\<rparr>]"
  using s bookingRec_onend_effect [OF r]
  by (simp add: run_task_def bookingRec_onend_find [OF r] sendBookingMessage_def trim_trim
      truthy_id_def stop_defs state_defs Let_def split: option.splits)

lemma checkin_submission_without_session:
  assumes r: "find_rec i Checkin w = Some r"
    and s: "\<not> truthy_id (c_sessionId (checkin w))"
  shows "run_task p (TSendCheckinMessage i) (checkinRec_onend i w) = checkinRec_onend i w"
  using s checkinRec_onend_effect [OF r]
  by (simp add: run_task_def checkinRec_onend_find [OF r] sendCheckinMessage_def Let_def)

lemma booking_submission_without_session:
  assumes r: "find_rec i Booking w = Some r"
    and s: "\<not> truthy_id (b_sessionId (booking w))"
  shows "run_task p (TSendBookingMessage i) (bookingRec_onend i w) = bookingRec_onend i w"
  using s bookingRec_onend_effect [OF r]
  by (simp add: run_task_def bookingRec_onend_find [OF r] sendBookingMessage_def Let_def)

text \<open>
  C5, as stated, fails in both directions. A listening session that a speak request
  has stopped ends while the reply is being spoken: nothing is submitted, and the loop
  is not idle but speaking. And a session that ends with a final transcript and
  AutoMode on, after the user has gone back to the setup form, schedules the
  submission, but the callback finds no session id and sends nothing.
\<close>

theorem listening_end_not_idle_counterexample:
  "find_rec 1 Checkin checkin_spoken_over =
     Some \<lparr>r_id = 1, r_owner = Checkin, r_final = [], r_active = False\<rparr> \<and>
   c_isSpeaking (checkin checkin_spoken_over) \<and>
   timers (checkinRec_onend 1 checkin_spoken_over) = [] \<and>
   requests (checkinRec_onend 1 checkin_spoken_over) = requests checkin_spoken_over \<and>
   c_isSpeaking (checkin (checkinRec_onend 1 checkin_spoken_over)) \<and>
   \<not> checkin_idle (checkinRec_onend 1 checkin_spoken_over) \<and>
   finalTranscript 1 Checkin (backToCheckinSetup browser checkin_heard) =
     Some (js ''I have a headache '') \<and>
   c_isAutoMode (checkin (backToCheckinSetup browser checkin_heard)) \<and>
   timers checkin_left = [(300, TSendCheckinMessage 1)] \<and>
   requests (fire_timer browser checkin_left) = []"
  by code_simp

text \<open>
  C5, amended. When the listening session of recognizer \<open>i\<close> ends, \<^verbatim>\<open>onend\<close>
  schedules the submission of the transcript (after 300 ms) exactly when
  \<^verbatim>\<open>finalTranscript\<close> is not empty after trimming and AutoMode is on in the state in
  which the session ends. In both cases it clears the listening flag and the
  indicators of listening, sends no request itself, alerts nothing and throws nothing,
  and it leaves the speaking flag as it was: the check-in loop is idle afterwards
  exactly when no speaking job is under way. The scheduled callback, when it runs,
  sends one request with the trimmed transcript if the session id is set, and does
  nothing if it is not.
\<close>

theorem listening_end_submits_iff:
  "(find_rec i Checkin w = Some r \<longrightarrow>
      timers (checkinRec_onend i w) =
        (if trim (r_final r) \<noteq> [] \<and> c_isAutoMode (checkin w)
         then timers w @ [(300, TSendCheckinMessage i)] else timers w) \<and>
      \<not> c_isListening (checkin (checkinRec_onend i w)) \<and>
      c_rec (checkin (checkinRec_onend i w)) = None \<and>
      c_indicatorHidden (checkin (checkinRec_onend i w)) \<and>
      \<not> c_micRecording (checkin (checkinRec_onend i w)) \<and>
      \<not> c_statusActive (checkin (checkinRec_onend i w)) \<and>
      c_isSpeaking (checkin (checkinRec_onend i w)) = c_isSpeaking (checkin w) \<and>
      checkin_idle (checkinRec_onend i w) =
        (\<not> c_isSpeaking (checkin w) \<and> c_utterance (checkin w) = None) \<and>
      requests (checkinRec_onend i w) = requests w \<and>
      alerts (checkinRec_onend i w) = alerts w \<and>
      uncaught (checkinRec_onend i w) = uncaught w \<and>
      (trim (r_final r) \<noteq> [] \<and> c_sessionId (checkin w) = Some sid \<and> sid \<noteq> 0 \<longrightarrow>
         requests (run_task p (TSendCheckinMessage i) (checkinRec_onend i w)) =
           requests w @
             [\<lparr>q_owner = Checkin, q_session = sid, q_message = trim (r_final r)\<rparr>]) \<and>
      (\<not> truthy_id (c_sessionId (checkin w)) \<longrightarrow>
         run_task p (TSendCheckinMessage i) (checkinRec_onend i w) =
           checkinRec_onend i w)) \<and>
   (find_rec i Booking w = Some r \<longrightarrow>
      timers (bookingRec_onend i w) =
        (if trim (r_final r) \<noteq> [] \<and> b_isAutoMode (booking w)
         then timers w @ [(300, TSendBookingMessage i)] else timers w) \<and>
      \<not> b_isListening (booking (bookingRec_onend i w)) \<and>
      b_indicatorHidden (booking (bookingRec_onend i w)) \<and>
      \<not> b_micActive (booking (bookingRec_onend i w)) \<and>
      b_statusText (booking (bookingRec_onend i w)) = js ''Ready'' \<and>
      b_isSpeaking (booking (bookingRec_onend i w)) = b_isSpeaking (booking w) \<and>
      requests (bookingRec_onend i w) = requests w \<and>
      alerts (bookingRec_onend i w) = alerts w \<and>
      uncaught (bookingRec_onend i w) = uncaught w \<and>
      (trim (r_final r) \<noteq> [] \<and> b_sessionId (booking w) = Some sid \<and> sid \<noteq> 0 \<longrightarrow>
         requests (run_task p (TSendBookingMessage i) (bookingRec_onend i w)) =
           requests w @
             [\<lparr>q_owner = Booking, q_session = sid, q_message = trim (r_final r)\<rparr>]) \<and>
      (\<not> truthy_id (b_sessionId (booking w)) \<longrightarrow>
         run_task p (TSendBookingMessage i) (bookingRec_onend i w) =
           bookingRec_onend i w))"
  using checkinRec_onend_effect [of i w r] bookingRec_onend_effect [of i w r]
    checkinRec_onend_idle_iff [of i w r]
    checkin_submission_runs [of i w r sid p] booking_submission_runs [of i w r sid p]
    checkin_submission_without_session [of i w r p]
    booking_submission_without_session [of i w r p]
  by simp

text \<open>
  The patient has said "I have a headache" and the engine has made it final: at the end
  of the session the submission is scheduled and, run, sends exactly that text. With
  AutoMode switched off in between, nothing is scheduled; nor is it when the session
  ends in silence, after which the loop is idle. The session stopped by a spoken reply
  ends with the loop speaking, and the one that ends after the return to the setup
  form submits nothing.
\<close>

theorem listening_end_submits_iff_witness:
  "find_rec 1 Checkin checkin_heard =
     Some \<lparr>r_id = 1, r_owner = Checkin, r_final = js ''I have a headache '',
       r_active = True\<rparr> \<and>
   c_isAutoMode (checkin checkin_heard) \<and>
   timers (checkinRec_onend 1 checkin_heard) = [(300, TSendCheckinMessage 1)] \<and>
   requests (run_task browser (TSendCheckinMessage 1) (checkinRec_onend 1 checkin_heard)) =
     [\<lparr>q_owner = Checkin, q_session = 7, q_message = js ''I have a headache''\<rparr>] \<and>
   find_rec 1 Booking booking_heard =
     Some \<lparr>r_id = 1, r_owner = Booking, r_final = js ''I have a headache '',
       r_active = True\<rparr> \<and>
   timers (bookingRec_onend 1 booking_heard) = [(300, TSendBookingMessage 1)] \<and>
   requests (run_task browser (TSendBookingMessage 1) (bookingRec_onend 1 booking_heard)) =
     [\<lparr>q_owner = Booking, q_session = 9, q_message = js ''I have a headache''\<rparr>] \<and>
   \<not> b_isAutoMode (booking (toggleBookingAutoMode booking_heard)) \<and>
   timers (bookingRec_onend 1 (toggleBookingAutoMode booking_heard)) = [] \<and>
   find_rec 1 Checkin checkin_listening =
     Some \<lparr>r_id = 1, r_owner = Checkin, r_final = [], r_active = True\<rparr> \<and>
   c_isAutoMode (checkin checkin_listening) \<and>
   timers (checkinRec_onend 1 checkin_listening) = [] \<and>
   \<not> c_isListening (checkin (checkinRec_onend 1 checkin_listening)) \<and>
   checkin_idle (checkinRec_onend 1 checkin_listening) \<and>
   c_isSpeaking (checkin checkin_spoken_over) \<and>
   c_isSpeaking (checkin (checkinRec_onend 1 checkin_spoken_over)) \<and>
   \<not> c_isListening (checkin (checkinRec_onend 1 checkin_spoken_over)) \<and>
   \<not> truthy_id (c_sessionId (checkin (backToCheckinSetup browser checkin_heard))) \<and>
   run_task browser (TSendCheckinMessage 1) checkin_left = checkin_left"
proof -
  let ?c = "\<lparr>r_id = 1, r_owner = Checkin, r_final = js ''I have a headache '',
    r_active = True\<rparr>"
  let ?e = "\<lparr>r_id = 1, r_owner = Checkin, r_final = [], r_active = True\<rparr>"
  let ?s = "\<lparr>r_id = 1, r_owner = Checkin, r_final = [], r_active = False\<rparr>"
  let ?l = "\<lparr>r_id = 1, r_owner = Checkin, r_final = js ''I have a headache '',
    r_active = False\<rparr>"
  let ?b = "\<lparr>r_id = 1, r_owner = Booking, r_final = js ''I have a headache '',
    r_active = True\<rparr>"
  have c: "find_rec 1 Checkin checkin_heard = Some ?c" "c_isAutoMode (checkin checkin_heard)"
    "timers checkin_heard = []" "requests checkin_heard = []"
    "c_sessionId (checkin checkin_heard) = Some 7"
    by code_simp+
  have b: "find_rec 1 Booking booking_heard = Some ?b" "b_isAutoMode (booking booking_heard)"
    "timers booking_heard = []" "requests booking_heard = []"
    "b_sessionId (booking booking_heard) = Some 9"
    by code_simp+
  have off: "find_rec 1 Booking (toggleBookingAutoMode booking_heard) = Some ?b"
    "\<not> b_isAutoMode (booking (toggleBookingAutoMode booking_heard))"
    "timers (toggleBookingAutoMode booking_heard) = []"
    by code_simp+
  have silent: "find_rec 1 Checkin checkin_listening = Some ?e"
    "c_isAutoMode (checkin checkin_listening)" "timers checkin_listening = []"
    "\<not> c_isSpeaking (checkin checkin_listening)"
    "c_utterance (checkin checkin_listening) = None"
    by code_simp+
  have over: "find_rec 1 Checkin checkin_spoken_over = Some ?s"
    "c_isSpeaking (checkin checkin_spoken_over)"
    by code_simp+
  have left: "find_rec 1 Checkin (backToCheckinSetup browser checkin_heard) = Some ?l"
    "\<not> truthy_id (c_sessionId (checkin (backToCheckinSetup browser checkin_heard)))"
    by code_simp+
  have trimmed: "trim (js ''I have a headache '') = js ''I have a headache''" "trim [] = []"
    "js ''I have a headache'' \<noteq> []"
    by code_simp+
  show ?thesis
    using c b off silent over left trimmed
      listening_end_submits_iff [of 1 checkin_listening ?e 7 browser]
      listening_end_submits_iff [of 1 checkin_heard ?c 7 browser]
      listening_end_submits_iff [of 1 booking_heard ?b 9 browser]
      listening_end_submits_iff [of 1 "toggleBookingAutoMode booking_heard" ?b 9 browser]
      listening_end_submits_iff [of 1 checkin_spoken_over ?s 7 browser]
      listening_end_submits_iff [of 1 "backToCheckinSetup browser checkin_heard" ?l 7 browser]
    by (simp add: checkin_left_def)
qed

subsection \<open>The end of a speaking job\<close>

lemma checkinUtterance_onend_effect:
  "timers (checkinUtterance_onend i w) =
     (if c_isAutoMode (checkin w) then timers w @ [(400, TStartCheckinListening)]
      else timers w) \<and>
   \<not> c_isSpeaking (checkin (checkinUtterance_onend i w)) \<and>
   c_utterance (checkin (checkinUtterance_onend i w)) = None \<and>
   c_indicatorHidden (checkin (checkinUtterance_onend i w)) \<and>
   c_isListening (checkin (checkinUtterance_onend i w)) = c_isListening (checkin w) \<and>
   recognizers (checkinUtterance_onend i w) = recognizers w \<and>
   requests (checkinUtterance_onend i w) = requests w"
  by (simp add: checkinUtterance_onend_def state_defs Let_def)

lemma bookingUtterance_onend_effect:
  "timers (bookingUtterance_onend i w) =
     (if b_isAutoMode (booking w) then timers w @ [(400, TStartBookingListening)]
      else timers w) \<and>
   \<not> b_isSpeaking (booking (bookingUtterance_onend i w)) \<and>
   b_indicatorHidden (booking (bookingUtterance_onend i w)) \<and>
   b_isListening (booking (bookingUtterance_onend i w)) = b_isListening (booking w) \<and>
   recognizers (bookingUtterance_onend i w) = recognizers w \<and>
   requests (bookingUtterance_onend i w) = requests w"
  by (simp add: bookingUtterance_onend_def state_defs Let_def)

lemma startCheckinListening_listens:
  "hasSpeechRecognition p \<Longrightarrow> c_isListening (checkin (startCheckinListening p w))"
  by (simp add: startCheckinListening_def stop_defs state_defs Let_def split: option.splits)

lemma startCheckinListening_handle:
  "hasSpeechRecognition p \<Longrightarrow> \<not> c_isListening (checkin w) \<Longrightarrow>
   c_rec (checkin (startCheckinListening p w)) = Some (nextId w) \<and>
   last (recognizers (startCheckinListening p w)) =
     \<lparr>r_id = nextId w, r_owner = Checkin, r_final = [], r_active = \<not> recStartThrows p\<rparr>"
  by (simp add: startCheckinListening_def stop_defs state_defs Let_def set_active_def
      split: option.splits)

lemma startBookingListening_handle:
  "hasSpeechRecognition p \<Longrightarrow> \<not> b_isListening (booking w) \<Longrightarrow>
   b_rec (booking (startBookingListening p w)) = Some (nextId w) \<and>
   last (recognizers (startBookingListening p w)) =
     \<lparr>r_id = nextId w, r_owner = Booking, r_final = [], r_active = \<not> recStartThrows p\<rparr>"
  by (simp add: startBookingListening_def stop_defs state_defs Let_def set_active_def
      split: option.splits)

lemma bookingRec_onstart_listens:
  "find_rec j Booking w = Some r \<Longrightarrow> b_isListening (booking (bookingRec_onstart j w))"
  by (simp add: bookingRec_onstart_def state_defs Let_def)

lemma startListening_unsupported:
  "\<not> hasSpeechRecognition p \<Longrightarrow>
   startCheckinListening p w = w \<and>
   recognizers (startBookingListening p w) = recognizers w \<and>
   b_isListening (booking (startBookingListening p w)) = b_isListening (booking w) \<and>
   b_rec (booking (startBookingListening p w)) = b_rec (booking w)"
  by (simp add: startCheckinListening_def startBookingListening_def state_defs)

text \<open>
  C4, as stated, fails: with AutoMode on the greeting ends and the timer is set, but
  on a browser without speech recognition the timer's callback returns at once, and the
  loop is not listening after the delay.
\<close>

theorem speaking_end_without_recognition_counterexample:
  "c_isSpeaking (checkin greeting_without_recognition) \<and>
   c_isAutoMode (checkin greeting_without_recognition) \<and>
   timers (checkinUtterance_onend 0 greeting_without_recognition) =
     [(400, TStartCheckinListening)] \<and>
   \<not> c_isListening (checkin after_greeting_without_recognition) \<and>
   c_rec (checkin after_greeting_without_recognition) = None \<and>
   recognizers after_greeting_without_recognition = [] \<and>
   timers after_greeting_without_recognition = []"
  by code_simp

text \<open>
  C4, amended. The end of a speaking job clears the speaking flag and hides the
  indicator. With AutoMode on at that moment it schedules the start of listening after
  400 ms, with AutoMode off it schedules nothing; in both cases it starts no recognizer
  and sends no request itself. When the scheduled callback runs on a platform with
  speech recognition, the loop listens: the check-in loop sets its flag at once, the
  booking loop (when it is not listening yet) creates and starts a recognizer and sets
  its flag when the engine reports the start. On a platform without speech recognition
  the callback starts nothing.
\<close>

theorem speaking_end_schedules_listening:
  "(c_isAutoMode (checkin w) \<longrightarrow>
      timers (checkinUtterance_onend i w) = timers w @ [(400, TStartCheckinListening)]) \<and>
   (\<not> c_isAutoMode (checkin w) \<longrightarrow> timers (checkinUtterance_onend i w) = timers w) \<and>
   \<not> c_isSpeaking (checkin (checkinUtterance_onend i w)) \<and>
   c_indicatorHidden (checkin (checkinUtterance_onend i w)) \<and>
   c_isListening (checkin (checkinUtterance_onend i w)) = c_isListening (checkin w) \<and>
   recognizers (checkinUtterance_onend i w) = recognizers w \<and>
   requests (checkinUtterance_onend i w) = requests w \<and>
   (b_isAutoMode (booking w) \<longrightarrow>
      timers (bookingUtterance_onend i w) = timers w @ [(400, TStartBookingListening)]) \<and>
   (\<not> b_isAutoMode (booking w) \<longrightarrow> timers (bookingUtterance_onend i w) = timers w) \<and>
   \<not> b_isSpeaking (booking (bookingUtterance_onend i w)) \<and>
   b_indicatorHidden (booking (bookingUtterance_onend i w)) \<and>
   b_isListening (booking (bookingUtterance_onend i w)) = b_isListening (booking w) \<and>
   recognizers (bookingUtterance_onend i w) = recognizers w \<and>
   requests (bookingUtterance_onend i w) = requests w \<and>
   (hasSpeechRecognition p \<longrightarrow>
      c_isListening (checkin (run_task p TStartCheckinListening v))) \<and>
   (hasSpeechRecognition p \<and> \<not> c_isListening (checkin v) \<longrightarrow>
      c_rec (checkin (run_task p TStartCheckinListening v)) = Some (nextId v) \<and>
      last (recognizers (run_task p TStartCheckinListening v)) =
        \<lparr>r_id = nextId v, r_owner = Checkin, r_final = [],
          r_active = \<not> recStartThrows p\<rparr>) \<and>
   (hasSpeechRecognition p \<and> \<not> b_isListening (booking v) \<longrightarrow>
      b_rec (booking (run_task p TStartBookingListening v)) = Some (nextId v) \<and>
      last (recognizers (run_task p TStartBookingListening v)) =
        \<lparr>r_id = nextId v, r_owner = Booking, r_final = [],
          r_active = \<not> recStartThrows p\<rparr>) \<and>
   (find_rec j Booking v = Some r \<longrightarrow> b_isListening (booking (bookingRec_onstart j v))) \<and>
   (\<not> hasSpeechRecognition p \<longrightarrow>
      run_task p TStartCheckinListening v = v \<and>
      recognizers (run_task p TStartBookingListening v) = recognizers v \<and>
      b_isListening (booking (run_task p TStartBookingListening v)) =
        b_isListening (booking v))"
  using checkinUtterance_onend_effect [of i w] bookingUtterance_onend_effect [of i w]
    startCheckinListening_listens [of p v] startCheckinListening_handle [of p v]
    startBookingListening_handle [of p v] bookingRec_onstart_listens [of j v r]
    startListening_unsupported [of p v]
  by (simp add: run_task_def)

text \<open>
  The greetings of the two sessions end with AutoMode on, and once with AutoMode
  switched off during the welcome; the timer runs with and without speech recognition.
\<close>

theorem speaking_end_schedules_listening_witness:
  "c_isAutoMode (checkin checkin_greeting) \<and>
   timers (checkinUtterance_onend 0 checkin_greeting) = [(400, TStartCheckinListening)] \<and>
   hasSpeechRecognition browser \<and>
   c_isListening (checkin (run_task browser TStartCheckinListening
     (checkinUtterance_onend 0 checkin_greeting))) \<and>
   b_isAutoMode (booking booking_speaking) \<and>
   timers (bookingUtterance_onend 0 booking_speaking) = [(400, TStartBookingListening)] \<and>
   b_rec (booking (run_task browser TStartBookingListening
     (bookingUtterance_onend 0 booking_speaking))) = Some 1 \<and>
   b_isListening (booking (bookingRec_onstart 1 (run_task browser TStartBookingListening
     (bookingUtterance_onend 0 booking_speaking)))) \<and>
   \<not> b_isAutoMode (booking (toggleBookingAutoMode booking_speaking)) \<and>
   timers (bookingUtterance_onend 0 (toggleBookingAutoMode booking_speaking)) = [] \<and>
   \<not> b_isSpeaking (booking (bookingUtterance_onend 0
     (toggleBookingAutoMode booking_speaking))) \<and>
   \<not> hasSpeechRecognition no_recognition \<and>
   run_task no_recognition TStartCheckinListening
     (checkinUtterance_onend 0 greeting_without_recognition) =
     checkinUtterance_onend 0 greeting_without_recognition"
proof -
  let ?c = "checkinUtterance_onend 0 checkin_greeting"
  let ?b = "bookingUtterance_onend 0 booking_speaking"
  let ?s = "run_task browser TStartBookingListening ?b"
  have pre: "c_isAutoMode (checkin checkin_greeting)" "timers checkin_greeting = []"
    "b_isAutoMode (booking booking_speaking)" "timers booking_speaking = []"
    "hasSpeechRecognition browser" "\<not> hasSpeechRecognition no_recognition"
    "\<not> b_isListening (booking ?b)" "nextId ?b = 1"
    "\<not> b_isAutoMode (booking (toggleBookingAutoMode booking_speaking))"
    "timers (toggleBookingAutoMode booking_speaking) = []"
    "find_rec 1 Booking ?s =
       Some \<lparr>r_id = 1, r_owner = Booking, r_final = [], r_active = True\<rparr>"
    by code_simp+
  show ?thesis
    using pre
      speaking_end_schedules_listening [of checkin_greeting 0 browser ?c]
      speaking_end_schedules_listening [of booking_speaking 0 browser ?b]
      speaking_end_schedules_listening [of booking_speaking 0 browser ?s 1
        "\<lparr>r_id = 1, r_owner = Booking, r_final = [], r_active = True\<rparr>"]
      speaking_end_schedules_listening [of "toggleBookingAutoMode booking_speaking" 0]
      speaking_end_schedules_listening [of greeting_without_recognition 0 no_recognition
        "checkinUtterance_onend 0 greeting_without_recognition"]
    by simp
qed

subsection \<open>Switching AutoMode\<close>

lemma toggleBookingAutoMode_effect:
  "b_isAutoMode (booking (toggleBookingAutoMode w)) = (\<not> b_isAutoMode (booking w)) \<and>
   b_isSpeaking (booking (toggleBookingAutoMode w)) = b_isSpeaking (booking w) \<and>
   b_isListening (booking (toggleBookingAutoMode w)) = b_isListening (booking w) \<and>
   b_rec (booking (toggleBookingAutoMode w)) = b_rec (booking w) \<and>
   b_utterance (booking (toggleBookingAutoMode w)) = b_utterance (booking w) \<and>
   b_input (booking (toggleBookingAutoMode w)) = b_input (booking w) \<and>
   synthQueue (toggleBookingAutoMode w) = synthQueue w \<and>
   recognizers (toggleBookingAutoMode w) = recognizers w \<and>
   timers (toggleBookingAutoMode w) = timers w \<and>
   requests (toggleBookingAutoMode w) = requests w"
  by (simp add: toggleBookingAutoMode_def state_defs)

lemma toggleAutoMode_off:
  "c_isAutoMode (checkin w) \<Longrightarrow>
   \<not> c_isAutoMode (checkin (toggleAutoMode p w)) \<and>
   \<not> c_isSpeaking (checkin (toggleAutoMode p w)) \<and>
   \<not> c_isListening (checkin (toggleAutoMode p w)) \<and>
   c_rec (checkin (toggleAutoMode p w)) = None \<and>
   c_utterance (checkin (toggleAutoMode p w)) = None \<and>
   c_indicatorHidden (checkin (toggleAutoMode p w)) \<and>
   c_input (checkin (toggleAutoMode p w)) = c_input (checkin w) \<and>
   synthQueue (toggleAutoMode p w) = (if hasSpeechSynthesis p then [] else synthQueue w) \<and>
   recognizers (toggleAutoMode p w) =
     (case c_rec (checkin w) of
        None \<Rightarrow> recognizers w
      | Some i \<Rightarrow> if recStopThrows p then recognizers w
                  else set_active i False (recognizers w)) \<and>
   timers (toggleAutoMode p w) = timers w \<and>
   requests (toggleAutoMode p w) = requests w"
  by (simp add: toggleAutoMode_def updateAutoModeUI_def stop_defs state_defs Let_def
      split: option.splits)

lemma toggleAutoMode_on:
  "\<not> c_isAutoMode (checkin w) \<Longrightarrow>
   c_isAutoMode (checkin (toggleAutoMode p w)) \<and>
   c_isSpeaking (checkin (toggleAutoMode p w)) = c_isSpeaking (checkin w) \<and>
   c_isListening (checkin (toggleAutoMode p w)) = c_isListening (checkin w) \<and>
   c_rec (checkin (toggleAutoMode p w)) = c_rec (checkin w) \<and>
   synthQueue (toggleAutoMode p w) = synthQueue w \<and>
   recognizers (toggleAutoMode p w) = recognizers w \<and>
   timers (toggleAutoMode p w) = timers w"
  by (simp add: toggleAutoMode_def updateAutoModeUI_def state_defs Let_def)

lemma checkinRec_onend_manual:
  "find_rec i Checkin w = Some r \<Longrightarrow> \<not> c_isAutoMode (checkin w) \<Longrightarrow>
   timers (checkinRec_onend i w) = timers w \<and>
   requests (checkinRec_onend i w) = requests w \<and>
   c_input (checkin (checkinRec_onend i w)) = c_input (checkin w) \<and>
   \<not> c_isListening (checkin (checkinRec_onend i w))"
  by (simp add: checkinRec_onend_def state_defs Let_def)

lemma bookingRec_onend_manual:
  "find_rec i Booking w = Some r \<Longrightarrow> \<not> b_isAutoMode (booking w) \<Longrightarrow>
   timers (bookingRec_onend i w) = timers w \<and>
   requests (bookingRec_onend i w) = requests w \<and>
   b_input (booking (bookingRec_onend i w)) = b_input (booking w) \<and>
   \<not> b_isListening (booking (bookingRec_onend i w))"
  by (simp add: bookingRec_onend_def state_defs Let_def)

text \<open>
  C2, as stated, fails for the check-in loop: \<^verbatim>\<open>toggleAutoMode\<close> switching AutoMode
  off calls both stop functions. The greeting that is being spoken is cancelled, and
  the session that has just heard the patient is stopped and its handle released.
\<close>

theorem toggle_off_interrupts_checkin_counterexample:
  "c_isAutoMode (checkin checkin_greeting) \<and>
   c_isSpeaking (checkin checkin_greeting) \<and>
   synthQueue checkin_greeting = [\<lparr>u_id = 0, u_owner = Checkin, u_text = js ''Hello''\<rparr>] \<and>
   \<not> c_isSpeaking (checkin (toggleAutoMode browser checkin_greeting)) \<and>
   synthQueue (toggleAutoMode browser checkin_greeting) = [] \<and>
   c_isAutoMode (checkin checkin_heard) \<and>
   c_isListening (checkin checkin_heard) \<and>
   c_rec (checkin checkin_heard) = Some 1 \<and>
   recognizers checkin_heard =
     [\<lparr>r_id = 1, r_owner = Checkin, r_final = js ''I have a headache '', r_active = True\<rparr>] \<and>
   \<not> c_isListening (checkin (toggleAutoMode browser checkin_heard)) \<and>
   c_rec (checkin (toggleAutoMode browser checkin_heard)) = None \<and>
   recognizers (toggleAutoMode browser checkin_heard) =
     [\<lparr>r_id = 1, r_owner = Checkin, r_final = js ''I have a headache '', r_active = False\<rparr>]"
  by code_simp

text \<open>
  C2, amended. In the booking loop, \<^verbatim>\<open>toggleBookingAutoMode\<close> changes the AutoMode
  flag and nothing of the running job: flags, handles, speech queue, recognizers,
  timers and requests stay. In the check-in loop, \<^verbatim>\<open>toggleAutoMode\<close> switching
  AutoMode off stops the running job at once: the speech queue is cancelled, the
  recognizer is stopped and released, both flags are cleared; switching it on touches
  no job. In both loops a speaking job that ends while AutoMode is off schedules no
  listening and starts no recognizer, and a listening session that ends while AutoMode
  is off schedules no submission and sends nothing, and the transcript stays in the
  input field.
\<close>

theorem toggle_auto_mode_off:
  "(b_isAutoMode (booking (toggleBookingAutoMode w)) = (\<not> b_isAutoMode (booking w)) \<and>
    b_isSpeaking (booking (toggleBookingAutoMode w)) = b_isSpeaking (booking w) \<and>
    b_isListening (booking (toggleBookingAutoMode w)) = b_isListening (booking w) \<and>
    b_rec (booking (toggleBookingAutoMode w)) = b_rec (booking w) \<and>
    b_utterance (booking (toggleBookingAutoMode w)) = b_utterance (booking w) \<and>
    b_input (booking (toggleBookingAutoMode w)) = b_input (booking w) \<and>
    synthQueue (toggleBookingAutoMode w) = synthQueue w \<and>
    recognizers (toggleBookingAutoMode w) = recognizers w \<and>
    timers (toggleBookingAutoMode w) = timers w \<and>
    requests (toggleBookingAutoMode w) = requests w) \<and>
   (c_isAutoMode (checkin w) \<longrightarrow>
      \<not> c_isAutoMode (checkin (toggleAutoMode p w)) \<and>
      \<not> c_isSpeaking (checkin (toggleAutoMode p w)) \<and>
      \<not> c_isListening (checkin (toggleAutoMode p w)) \<and>
      c_rec (checkin (toggleAutoMode p w)) = None \<and>
      c_utterance (checkin (toggleAutoMode p w)) = None \<and>
      c_indicatorHidden (checkin (toggleAutoMode p w)) \<and>
      c_input (checkin (toggleAutoMode p w)) = c_input (checkin w) \<and>
      synthQueue (toggleAutoMode p w) = (if hasSpeechSynthesis p then [] else synthQueue w) \<and>
      recognizers (toggleAutoMode p w) =
        (case c_rec (checkin w) of
           None \<Rightarrow> recognizers w
         | Some i \<Rightarrow> if recStopThrows p then recognizers w
                     else set_active i False (recognizers w)) \<and>
      timers (toggleAutoMode p w) = timers w \<and>
      requests (toggleAutoMode p w) = requests w) \<and>
   (\<not> c_isAutoMode (checkin w) \<longrightarrow>
      c_isAutoMode (checkin (toggleAutoMode p w)) \<and>
      c_isSpeaking (checkin (toggleAutoMode p w)) = c_isSpeaking (checkin w) \<and>
      c_isListening (checkin (toggleAutoMode p w)) = c_isListening (checkin w) \<and>
      c_rec (checkin (toggleAutoMode p w)) = c_rec (checkin w) \<and>
      synthQueue (toggleAutoMode p w) = synthQueue w \<and>
      recognizers (toggleAutoMode p w) = recognizers w \<and>
      timers (toggleAutoMode p w) = timers w) \<and>
   (find_rec i Booking w = Some r \<and> \<not> b_isAutoMode (booking w) \<longrightarrow>
      timers (bookingRec_onend i w) = timers w \<and>
      requests (bookingRec_onend i w) = requests w \<and>
      b_input (booking (bookingRec_onend i w)) = b_input (booking w) \<and>
      \<not> b_isListening (booking (bookingRec_onend i w))) \<and>
   (find_rec i Checkin w = Some r \<and> \<not> c_isAutoMode (checkin w) \<longrightarrow>
      timers (checkinRec_onend i w) = timers w \<and>
      requests (checkinRec_onend i w) = requests w \<and>
      c_input (checkin (checkinRec_onend i w)) = c_input (checkin w) \<and>
      \<not> c_isListening (checkin (checkinRec_onend i w))) \<and>
   (\<not> b_isAutoMode (booking w) \<longrightarrow>
      timers (bookingUtterance_onend j w) = timers w \<and>
      recognizers (bookingUtterance_onend j w) = recognizers w \<and>
      b_isListening (booking (bookingUtterance_onend j w)) = b_isListening (booking w) \<and>
      \<not> b_isSpeaking (booking (bookingUtterance_onend j w))) \<and>
   (\<not> c_isAutoMode (checkin w) \<longrightarrow>
      timers (checkinUtterance_onend j w) = timers w \<and>
      recognizers (checkinUtterance_onend j w) = recognizers w \<and>
      c_isListening (checkin (checkinUtterance_onend j w)) = c_isListening (checkin w) \<and>
      \<not> c_isSpeaking (checkin (checkinUtterance_onend j w)))"
  using toggleBookingAutoMode_effect [of w] toggleAutoMode_off [of w p]
    toggleAutoMode_on [of w p] bookingRec_onend_manual [of i w r]
    checkinRec_onend_manual [of i w r] bookingUtterance_onend_effect [of j w]
    checkinUtterance_onend_effect [of j w]
  by simp

text \<open>
  AutoMode is switched off after the patient's sentence has become final. The booking
  session goes on, ends by itself, and the sentence waits in the input field; the
  check-in session is stopped by the switch, and its end event submits nothing either.
  AutoMode is switched off during the welcome and during the greeting. The booking
  welcome goes on, and its end opens no microphone; the check-in greeting is cancelled,
  and the end event of its utterance opens no microphone either.
\<close>

theorem toggle_auto_mode_off_witness:
  "b_isListening (booking booking_heard) \<and>
   b_isListening (booking (toggleBookingAutoMode booking_heard)) \<and>
   b_rec (booking (toggleBookingAutoMode booking_heard)) = Some 1 \<and>
   recognizers (toggleBookingAutoMode booking_heard) = recognizers booking_heard \<and>
   \<not> b_isAutoMode (booking (toggleBookingAutoMode booking_heard)) \<and>
   timers (bookingRec_onend 1 (toggleBookingAutoMode booking_heard)) = [] \<and>
   requests (bookingRec_onend 1 (toggleBookingAutoMode booking_heard)) = [] \<and>
   b_input (booking (bookingRec_onend 1 (toggleBookingAutoMode booking_heard))) =
     js ''I have a headache '' \<and>
   c_isAutoMode (checkin checkin_heard) \<and>
   c_isListening (checkin checkin_heard) \<and>
   \<not> c_isListening (checkin (toggleAutoMode browser checkin_heard)) \<and>
   c_rec (checkin (toggleAutoMode browser checkin_heard)) = None \<and>
   timers (checkinRec_onend 1 (toggleAutoMode browser checkin_heard)) = [] \<and>
   requests (checkinRec_onend 1 (toggleAutoMode browser checkin_heard)) = [] \<and>
   c_input (checkin (checkinRec_onend 1 (toggleAutoMode browser checkin_heard))) =
     js ''I have a headache '' \<and>
   c_isAutoMode (checkin (toggleAutoMode browser (toggleAutoMode browser checkin_heard))) \<and>
   b_isSpeaking (booking booking_speaking) \<and>
   b_isSpeaking (booking (toggleBookingAutoMode booking_speaking)) \<and>
   synthQueue (toggleBookingAutoMode booking_speaking) = synthQueue booking_speaking \<and>
   timers (bookingUtterance_onend 0 (toggleBookingAutoMode booking_speaking)) = [] \<and>
   recognizers (bookingUtterance_onend 0 (toggleBookingAutoMode booking_speaking)) = [] \<and>
   \<not> b_isSpeaking
     (booking (bookingUtterance_onend 0 (toggleBookingAutoMode booking_speaking))) \<and>
   c_isSpeaking (checkin checkin_greeting) \<and>
   \<not> c_isSpeaking (checkin (toggleAutoMode browser checkin_greeting)) \<and>
   timers (checkinUtterance_onend 0 (toggleAutoMode browser checkin_greeting)) = [] \<and>
   recognizers (checkinUtterance_onend 0 (toggleAutoMode browser checkin_greeting)) = []"
proof -
  let ?b = "\<lparr>r_id = 1, r_owner = Booking, r_final = js ''I have a headache '', r_active = True\<rparr>"
  let ?c = "\<lparr>r_id = 1, r_owner = Checkin, r_final = js ''I have a headache '', r_active = False\<rparr>"
  have b: "b_isListening (booking booking_heard)" "b_rec (booking booking_heard) = Some 1"
    "b_isAutoMode (booking booking_heard)" "timers booking_heard = []"
    "requests booking_heard = []" "b_input (booking booking_heard) = js ''I have a headache ''"
    "find_rec 1 Booking (toggleBookingAutoMode booking_heard) = Some ?b"
    by code_simp+
  have c: "c_isAutoMode (checkin checkin_heard)" "c_isListening (checkin checkin_heard)"
    "timers checkin_heard = []" "requests checkin_heard = []"
    "c_input (checkin checkin_heard) = js ''I have a headache ''"
    "find_rec 1 Checkin (toggleAutoMode browser checkin_heard) = Some ?c"
    by code_simp+
  have sp: "b_isSpeaking (booking booking_speaking)" "b_isAutoMode (booking booking_speaking)"
    "timers booking_speaking = []" "recognizers booking_speaking = []"
    "c_isSpeaking (checkin checkin_greeting)" "c_isAutoMode (checkin checkin_greeting)"
    "timers checkin_greeting = []" "recognizers checkin_greeting = []"
    "c_rec (checkin checkin_greeting) = None"
    by code_simp+
  show ?thesis
    using b c sp
      toggle_auto_mode_off [of booking_heard browser 1 ?b 0]
      toggle_auto_mode_off [of "toggleBookingAutoMode booking_heard" browser 1 ?b 0]
      toggle_auto_mode_off [of checkin_heard browser 1 ?c 0]
      toggle_auto_mode_off [of "toggleAutoMode browser checkin_heard" browser 1 ?c 0]
      toggle_auto_mode_off [of booking_speaking browser 1 ?b 0]
      toggle_auto_mode_off [of "toggleBookingAutoMode booking_speaking" browser 1 ?b 0]
      toggle_auto_mode_off [of checkin_greeting browser 1 ?c 0]
      toggle_auto_mode_off [of "toggleAutoMode browser checkin_greeting" browser 1 ?c 0]
    by simp
qed

subsection \<open>The two loops side by side\<close>

lemma filter_set_active_foreign:
  "list_all (\<lambda>r. r_id r = i \<longrightarrow> r_owner r = ow') rs \<Longrightarrow> ow' \<noteq> ow \<Longrightarrow>
   filter (\<lambda>r. r_owner r = ow) (set_active i a rs) = filter (\<lambda>r. r_owner r = ow) rs"
  by (induction rs) (auto simp: set_active_def)

lemma stopCheckinSpeaking_booking_view:
  "booking_view (stopCheckinSpeaking p w) = booking_view w"
  by (simp add: booking_view_def stop_defs state_defs)

lemma stopCheckinVoice_booking_view:
  "handles_ok w \<Longrightarrow> booking_view (stopCheckinVoice p w) = booking_view w"
  by (auto simp: booking_view_def handles_ok_def stop_defs state_defs Let_def
      filter_set_active_foreign [where ow' = Checkin] split: option.splits)

lemma stopCheckinSpeaking_handles_ok: "handles_ok w \<Longrightarrow> handles_ok (stopCheckinSpeaking p w)"
  by (simp add: handles_ok_def stop_defs state_defs split: option.splits)

lemma toggleAutoMode_booking_view:
  "handles_ok w \<Longrightarrow> booking_view (toggleAutoMode p w) = booking_view w"
proof -
  assume ok: "handles_ok w"
  let ?w1 = "upd_c (\<lambda>c. c\<lparr>c_isAutoMode := \<not> c_isAutoMode c\<rparr>) w"
  have ok1: "handles_ok ?w1"
    using ok by (simp add: handles_ok_def upd_c_def split: option.splits)
  have same1: "booking_view ?w1 = booking_view w"
    by (simp add: booking_view_def upd_c_def)
  have stopped: "booking_view (stopCheckinVoice p (stopCheckinSpeaking p ?w1)) = booking_view w"
    using stopCheckinVoice_booking_view [OF stopCheckinSpeaking_handles_ok [OF ok1]]
    by (simp add: stopCheckinSpeaking_booking_view same1)
  have ui: "booking_view (updateAutoModeUI v) = booking_view v" for v
    by (simp add: booking_view_def updateAutoModeUI_def upd_c_def)
  show ?thesis
    by (simp add: toggleAutoMode_def Let_def ui stopped same1)
qed

lemma checkin_failures_booking_view:
  "booking_view (checkinUtterance_onerror i w) = booking_view w \<and>
   booking_view (checkinRec_onerror i err w) = booking_view w \<and>
   booking_view (sendCheckinMessage_catch w) = booking_view w"
  by (simp add: booking_view_def checkinUtterance_onerror_def checkinRec_onerror_def
      sendCheckinMessage_catch_def state_defs Let_def split: option.splits)

lemma stopBookingSpeaking_checkin_view:
  "checkin_view (stopBookingSpeaking p w) = checkin_view w"
  by (simp add: checkin_view_def stop_defs state_defs)

lemma stopBookingVoice_checkin_view:
  "handles_ok w \<Longrightarrow> checkin_view (stopBookingVoice p w) = checkin_view w"
  by (auto simp: checkin_view_def handles_ok_def stop_defs state_defs Let_def
      filter_set_active_foreign [where ow' = Booking] split: option.splits)

lemma booking_failures_checkin_view:
  "checkin_view (toggleBookingAutoMode w) = checkin_view w \<and>
   checkin_view (bookingUtterance_onerror i w) = checkin_view w \<and>
   checkin_view (bookingRec_onerror i err w) = checkin_view w \<and>
   checkin_view (sendBookingMessage_catch w) = checkin_view w"
  by (simp add: checkin_view_def toggleBookingAutoMode_def bookingUtterance_onerror_def
      bookingRec_onerror_def sendBookingMessage_catch_def state_defs Let_def
      split: option.splits)

lemma stop_speaking_cancels_all:
  "synthQueue (stopCheckinSpeaking p w) = (if hasSpeechSynthesis p then [] else synthQueue w) \<and>
   synthQueue (stopBookingSpeaking p w) = (if hasSpeechSynthesis p then [] else synthQueue w)"
  by (simp add: stop_defs state_defs)

text \<open>
  C3, as stated, fails: the speech queue belongs to the page, not to a loop. While the
  booking welcome is being spoken, switching the check-in AutoMode off, or a call of
  \<^verbatim>\<open>stopCheckinSpeaking\<close>, cancels the booking utterance; the booking loop's flag
  still says that it speaks.
\<close>

theorem checkin_stop_cancels_booking_speech_counterexample:
  "b_isSpeaking (booking booking_speaking) \<and>
   filter (\<lambda>u. u_owner u = Booking) (synthQueue booking_speaking) =
     [\<lparr>u_id = 0, u_owner = Booking, u_text = js ''Welcome''\<rparr>] \<and>
   c_isAutoMode (checkin booking_speaking) \<and>
   filter (\<lambda>u. u_owner u = Booking) (synthQueue (toggleAutoMode browser booking_speaking)) = [] \<and>
   filter (\<lambda>u. u_owner u = Booking) (synthQueue (stopCheckinSpeaking browser booking_speaking))
     = [] \<and>
   b_isSpeaking (booking (toggleAutoMode browser booking_speaking))"
  by code_simp

text \<open>
  C3, amended. Switching AutoMode, a stop function and a failure (an utterance error, a
  recognition error, a failed request) of one loop change nothing that belongs to the
  other loop: its variables and indicators, its recognizers, its waiting callbacks and
  its requests. The speech queue is shared: \<^verbatim>\<open>stopCheckinSpeaking\<close> and
  \<^verbatim>\<open>stopBookingSpeaking\<close>, and so \<^verbatim>\<open>toggleAutoMode\<close> switching off, empty the
  whole queue, the other loop's utterance included.
\<close>

theorem loops_isolated_except_speech_queue:
  "(handles_ok w \<longrightarrow>
      booking_view (toggleAutoMode p w) = booking_view w \<and>
      booking_view (stopCheckinVoice p w) = booking_view w \<and>
      checkin_view (stopBookingVoice p w) = checkin_view w) \<and>
   booking_view (stopCheckinSpeaking p w) = booking_view w \<and>
   booking_view (checkinUtterance_onerror i w) = booking_view w \<and>
   booking_view (checkinRec_onerror i err w) = booking_view w \<and>
   booking_view (sendCheckinMessage_catch w) = booking_view w \<and>
   checkin_view (toggleBookingAutoMode w) = checkin_view w \<and>
   checkin_view (stopBookingSpeaking p w) = checkin_view w \<and>
   checkin_view (bookingUtterance_onerror i w) = checkin_view w \<and>
   checkin_view (bookingRec_onerror i err w) = checkin_view w \<and>
   checkin_view (sendBookingMessage_catch w) = checkin_view w \<and>
   synthQueue (stopCheckinSpeaking p w) = (if hasSpeechSynthesis p then [] else synthQueue w) \<and>
   synthQueue (stopBookingSpeaking p w) = (if hasSpeechSynthesis p then [] else synthQueue w) \<and>
   (c_isAutoMode (checkin w) \<and> hasSpeechSynthesis p \<longrightarrow> synthQueue (toggleAutoMode p w) = [])"
  using toggleAutoMode_booking_view [of w p] stopCheckinVoice_booking_view [of w p]
    stopBookingVoice_checkin_view [of w p] stopCheckinSpeaking_booking_view [of p w]
    checkin_failures_booking_view [of i w err] stopBookingSpeaking_checkin_view [of p w]
    booking_failures_checkin_view [of w i err] stop_speaking_cancels_all [of p w]
    toggleAutoMode_off [of w p]
  by simp

text \<open>
  The check-in operations while the booking loop speaks, the booking operations while
  the check-in loop listens.
\<close>

theorem loops_isolated_except_speech_queue_witness:
  "handles_ok booking_speaking \<and> handles_ok checkin_heard \<and>
   b_isSpeaking (booking booking_speaking) \<and> c_isListening (checkin checkin_heard) \<and>
   booking_view (toggleAutoMode browser booking_speaking) = booking_view booking_speaking \<and>
   booking_view (stopCheckinSpeaking browser booking_speaking) = booking_view booking_speaking \<and>
   booking_view (stopCheckinVoice browser booking_speaking) = booking_view booking_speaking \<and>
   checkin_view (stopBookingVoice browser checkin_heard) = checkin_view checkin_heard \<and>
   checkin_view (toggleBookingAutoMode checkin_heard) = checkin_view checkin_heard \<and>
   checkin_view (sendBookingMessage_catch checkin_heard) = checkin_view checkin_heard \<and>
   c_isAutoMode (checkin booking_speaking) \<and> hasSpeechSynthesis browser \<and>
   synthQueue (toggleAutoMode browser booking_speaking) = []"
proof -
  have pre: "handles_ok booking_speaking" "handles_ok checkin_heard"
    "b_isSpeaking (booking booking_speaking)" "c_isListening (checkin checkin_heard)"
    "c_isAutoMode (checkin booking_speaking)" "hasSpeechSynthesis browser"
    by code_simp+
  show ?thesis
    using pre
      loops_isolated_except_speech_queue [of booking_speaking browser 0 "(js ''network'')"]
      loops_isolated_except_speech_queue [of checkin_heard browser 0 "(js ''network'')"]
    by simp
qed

subsection \<open>The transcript of a listening session\<close>

lemma checkinRec_onresult_find:
  "find_rec i Checkin w = Some r \<Longrightarrow>
   find_rec i Checkin (checkinRec_onresult i ev w) = Some (r\<lparr>r_final := reportedFinals ev\<rparr>)"
  by (auto simp: checkinRec_onresult_def state_defs Let_def find_rec_def find_set_final
      scan_event_finals dest: find_Some_iff [THEN iffD1])

lemma bookingRec_onresult_find:
  "find_rec i Booking w = Some r \<Longrightarrow>
   find_rec i Booking (bookingRec_onresult i ev w) = Some (r\<lparr>r_final := reportedFinals ev\<rparr>)"
  by (auto simp: bookingRec_onresult_def state_defs Let_def find_rec_def find_set_final
      scan_event_finals dest: find_Some_iff [THEN iffD1])

lemma checkin_results_find:
  "find_rec i Checkin w = Some r \<Longrightarrow>
   find_rec i Checkin (checkin_results i evs w) =
     Some (if evs = [] then r else r\<lparr>r_final := reportedFinals (last evs)\<rparr>)"
proof (induction evs arbitrary: w r)
  case Nil
  then show ?case by (simp add: checkin_results_def)
next
  case (Cons ev evs)
  have step: "find_rec i Checkin (checkinRec_onresult i ev w) =
      Some (r\<lparr>r_final := reportedFinals ev\<rparr>)"
    using Cons.prems by (rule checkinRec_onresult_find)
  have unfold: "checkin_results i (ev # evs) w = checkin_results i evs (checkinRec_onresult i ev w)"
    by (simp add: checkin_results_def)
  show ?case
    unfolding unfold using Cons.IH [OF step] by simp
qed

lemma booking_results_find:
  "find_rec i Booking w = Some r \<Longrightarrow>
   find_rec i Booking (booking_results i evs w) =
     Some (if evs = [] then r else r\<lparr>r_final := reportedFinals (last evs)\<rparr>)"
proof (induction evs arbitrary: w r)
  case Nil
  then show ?case by (simp add: booking_results_def)
next
  case (Cons ev evs)
  have step: "find_rec i Booking (bookingRec_onresult i ev w) =
      Some (r\<lparr>r_final := reportedFinals ev\<rparr>)"
    using Cons.prems by (rule bookingRec_onresult_find)
  have unfold: "booking_results i (ev # evs) w = booking_results i evs (bookingRec_onresult i ev w)"
    by (simp add: booking_results_def)
  show ?case
    unfolding unfold using Cons.IH [OF step] by simp
qed

lemma reportedFinals_from_start:
  "evs \<noteq> [] \<Longrightarrow> resultIndex (last evs) = 0 \<Longrightarrow>
   reportedFinals (last evs) = engineFinalSegments evs"
  by (simp add: reportedFinals_def engineFinalSegments_def)

text \<open>
  C7, as stated, fails: \<^verbatim>\<open>onresult\<close> empties \<^verbatim>\<open>finalTranscript\<close> on every event
  and reads the results from \<^verbatim>\<open>resultIndex\<close> only. After a final result, an event
  that reports a later interim result leaves the buffer empty, although the engine has
  marked "hello" final in this session; the session then ends without a submission.
\<close>

theorem final_segment_lost_counterexample:
  "finalTranscript 1 Checkin checkin_listening = Some [] \<and>
   engineFinalSegments final_then_interim = js ''hello'' \<and>
   finalTranscript 1 Checkin (checkin_results 1 final_then_interim checkin_listening) = Some [] \<and>
   finalTranscript 1 Booking (booking_results 1 final_then_interim booking_listening) = Some [] \<and>
   c_input (checkin (checkin_results 1 final_then_interim checkin_listening)) = js ''wor'' \<and>
   timers (checkinRec_onend 1 (checkin_results 1 final_then_interim checkin_listening)) = []"
  by code_simp

text \<open>
  C7, amended. A listening session starts with an empty \<^verbatim>\<open>finalTranscript\<close>. After
  the result events of the session, \<^verbatim>\<open>finalTranscript\<close> is the concatenation, in
  order, of the texts of the final results that the last event reports from its
  \<^verbatim>\<open>resultIndex\<close> on, and of nothing else: no interim text, and no final result of
  an index below that \<^verbatim>\<open>resultIndex\<close>. When the last event reports from index 0,
  this is the text of all results the engine has marked final in the session.
\<close>

theorem final_transcript_is_last_report:
  "(find_rec i Checkin w = Some r \<longrightarrow>
      finalTranscript i Checkin (checkin_results i evs w) =
        Some (if evs = [] then r_final r else reportedFinals (last evs))) \<and>
   (find_rec i Booking w = Some r \<longrightarrow>
      finalTranscript i Booking (booking_results i evs w) =
        Some (if evs = [] then r_final r else reportedFinals (last evs))) \<and>
   (evs \<noteq> [] \<and> resultIndex (last evs) = 0 \<longrightarrow>
      reportedFinals (last evs) = engineFinalSegments evs) \<and>
   (hasSpeechRecognition p \<and> \<not> c_isListening (checkin w) \<longrightarrow>
      c_rec (checkin (startCheckinListening p w)) = Some (nextId w) \<and>
      last (recognizers (startCheckinListening p w)) =
        \<lparr>r_id = nextId w, r_owner = Checkin, r_final = [], r_active = \<not> recStartThrows p\<rparr>) \<and>
   (hasSpeechRecognition p \<and> \<not> b_isListening (booking w) \<longrightarrow>
      b_rec (booking (startBookingListening p w)) = Some (nextId w) \<and>
      last (recognizers (startBookingListening p w)) =
        \<lparr>r_id = nextId w, r_owner = Booking, r_final = [], r_active = \<not> recStartThrows p\<rparr>)"
  using checkin_results_find [of i w r evs] booking_results_find [of i w r evs]
    reportedFinals_from_start [of evs] startCheckinListening_handle [of p w]
    startBookingListening_handle [of p w]
  by (simp add: finalTranscript_def)

text \<open>
  The session that hears "I have a headache" in one final result, the session of the
  counterexample, and the start of a session on the empty page.
\<close>

theorem final_transcript_is_last_report_witness:
  "find_rec 1 Checkin checkin_listening =
     Some \<lparr>r_id = 1, r_owner = Checkin, r_final = [], r_active = True\<rparr> \<and>
   finalTranscript 1 Checkin (checkin_results 1 [heard_headache] checkin_listening) =
     Some (js ''I have a headache '') \<and>
   engineFinalSegments [heard_headache] = js ''I have a headache '' \<and>
   find_rec 1 Booking booking_listening =
     Some \<lparr>r_id = 1, r_owner = Booking, r_final = [], r_active = True\<rparr> \<and>
   finalTranscript 1 Booking (booking_results 1 [heard_headache] booking_listening) =
     Some (js ''I have a headache '') \<and>
   finalTranscript 1 Checkin (checkin_results 1 final_then_interim checkin_listening) =
     Some [] \<and>
   hasSpeechRecognition browser \<and> \<not> c_isListening (checkin world0) \<and>
   c_rec (checkin (startCheckinListening browser world0)) = Some 0 \<and>
   last (recognizers (startCheckinListening browser world0)) =
     \<lparr>r_id = 0, r_owner = Checkin, r_final = [], r_active = True\<rparr> \<and>
   \<not> b_isListening (booking world0) \<and>
   b_rec (booking (startBookingListening browser world0)) = Some 0"
proof -
  let ?c = "\<lparr>r_id = 1, r_owner = Checkin, r_final = [], r_active = True\<rparr>"
  let ?b = "\<lparr>r_id = 1, r_owner = Booking, r_final = [], r_active = True\<rparr>"
  have pre: "find_rec 1 Checkin checkin_listening = Some ?c"
    "find_rec 1 Booking booking_listening = Some ?b"
    "hasSpeechRecognition browser" "\<not> c_isListening (checkin world0)"
    "\<not> b_isListening (booking world0)" "nextId world0 = 0" "\<not> recStartThrows browser"
    by code_simp+
  have evs: "reportedFinals (last [heard_headache]) = js ''I have a headache ''"
    "resultIndex (last [heard_headache]) = 0"
    "reportedFinals (last final_then_interim) = []"
    "final_then_interim \<noteq> []"
    by code_simp+
  show ?thesis
    using pre evs
      final_transcript_is_last_report [of 1 checkin_listening ?c "[heard_headache]" browser]
      final_transcript_is_last_report [of 1 booking_listening ?b "[heard_headache]" browser]
      final_transcript_is_last_report [of 1 checkin_listening ?c final_then_interim browser]
      final_transcript_is_last_report [of 0 world0 ?c "[heard_headache]" browser]
    by simp
qed

subsection \<open>A failed request\<close>








subsection \<open>A missing engine\<close>

lemma bookingSpeakThenListen_unsupported:
  "\<not> hasSpeechSynthesis p \<Longrightarrow>
   b_statusText (booking (bookingSpeakThenListen p t w)) = js ''Ready'' \<and>
   \<not> b_isSpeaking (booking (bookingSpeakThenListen p t w)) \<and>
   b_indicatorHidden (booking (bookingSpeakThenListen p t w)) \<and>
   b_utterance (booking (bookingSpeakThenListen p t w)) = b_utterance (booking w) \<and>
   synthQueue (bookingSpeakThenListen p t w) = synthQueue w \<and>
   recognizers (bookingSpeakThenListen p t w) = recognizers w \<and>
   timers (bookingSpeakThenListen p t w) =
     (if b_isAutoMode (booking w) then timers w @ [(400, TStartBookingListening)]
      else timers w) \<and>
   alerts (bookingSpeakThenListen p t w) = alerts w \<and>
   uncaught (bookingSpeakThenListen p t w) = uncaught w"
  by (simp add: bookingSpeakThenListen_def stop_defs state_defs Let_def)

text \<open>
  C8, as stated, fails. Without speech synthesis the booking loop shows "Ready", not
  a report of the missing engine, and in AutoMode it schedules Listening all the same:
  the timer runs and a recognizer is started. The check-in loop reports nothing at
  all: its speak request and, without speech recognition, its listen request return
  the state unchanged.
\<close>

theorem unsupported_engine_counterexample:
  "\<not> hasSpeechSynthesis no_synthesis \<and>
   b_statusText (booking booking_without_synthesis) = js ''Ready'' \<and>
   timers booking_without_synthesis = [(400, TStartBookingListening)] \<and>
   b_rec (booking (fire_timer no_synthesis booking_without_synthesis)) = Some 0 \<and>
   recognizers (fire_timer no_synthesis booking_without_synthesis) =
     [\<lparr>r_id = 0, r_owner = Booking, r_final = [], r_active = True\<rparr>] \<and>
   c_statusText (checkin checkin_without_synthesis) = [] \<and>
   c_indicatorHidden (checkin checkin_without_synthesis) \<and>
   alerts checkin_without_synthesis = [] \<and>
   checkinSpeakThenListen no_synthesis (js ''Hello'') world0 = world0 \<and>
   \<not> hasSpeechRecognition no_recognition \<and>
   startCheckinListening no_recognition world0 = world0"
  by code_simp

text \<open>
  C8, amended. With a missing engine no speak or listen request throws. The check-in
  loop returns at once, with no message and no change of state. The booking loop, asked
  to listen without speech recognition, writes "Voice not supported in this browser."
  into its status line and changes nothing else; asked to speak without speech
  synthesis, it writes "Ready", speaks nothing and, when AutoMode is on, schedules
  Listening after 400 ms. Nothing records that an engine is missing: each request
  tests the platform again.
\<close>

theorem unsupported_engine_degrades:
  "(\<not> hasSpeechSynthesis p \<longrightarrow> checkinSpeakThenListen p t w = w) \<and>
   (\<not> hasSpeechRecognition p \<longrightarrow>
      startCheckinListening p w = w \<and>
      startBookingListening p w =
        upd_b (\<lambda>b. b\<lparr>b_statusText := js ''Voice not supported in this browser.''\<rparr>) w \<and>
      uncaught (startBookingListening p w) = uncaught w) \<and>
   (\<not> hasSpeechSynthesis p \<longrightarrow>
      b_statusText (booking (bookingSpeakThenListen p t w)) = js ''Ready'' \<and>
      \<not> b_isSpeaking (booking (bookingSpeakThenListen p t w)) \<and>
      b_indicatorHidden (booking (bookingSpeakThenListen p t w)) \<and>
      b_utterance (booking (bookingSpeakThenListen p t w)) = b_utterance (booking w) \<and>
      synthQueue (bookingSpeakThenListen p t w) = synthQueue w \<and>
      recognizers (bookingSpeakThenListen p t w) = recognizers w \<and>
      timers (bookingSpeakThenListen p t w) =
        (if b_isAutoMode (booking w) then timers w @ [(400, TStartBookingListening)]
         else timers w) \<and>
      alerts (bookingSpeakThenListen p t w) = alerts w \<and>
      uncaught (bookingSpeakThenListen p t w) = uncaught w)"
  using bookingSpeakThenListen_unsupported [of p t w]
  by (simp add: checkinSpeakThenListen_def startCheckinListening_def
      startBookingListening_def state_defs)

text \<open>
  The booking session 9 on a browser without speech synthesis and on one without
  speech recognition; the check-in greeting on both.
\<close>

theorem unsupported_engine_degrades_witness:
  "\<not> hasSpeechSynthesis no_synthesis \<and> \<not> hasSpeechRecognition no_recognition \<and>
   checkinSpeakThenListen no_synthesis (js ''Hello'') booking_listening = booking_listening \<and>
   startCheckinListening no_recognition booking_listening = booking_listening \<and>
   b_statusText (booking (startBookingListening no_recognition booking_speaking)) =
     js ''Voice not supported in this browser.'' \<and>
   recognizers (startBookingListening no_recognition booking_speaking) = [] \<and>
   b_isAutoMode (booking booking_listening) \<and>
   b_statusText (booking (bookingSpeakThenListen no_synthesis (js ''Which day?'') booking_listening))
     = js ''Ready'' \<and>
   timers (bookingSpeakThenListen no_synthesis (js ''Which day?'') booking_listening) =
     [(400, TStartBookingListening)] \<and>
   synthQueue (bookingSpeakThenListen no_synthesis (js ''Which day?'') booking_listening) = []"
proof -
  have pre: "\<not> hasSpeechSynthesis no_synthesis" "\<not> hasSpeechRecognition no_recognition"
    "b_isAutoMode (booking booking_listening)" "timers booking_listening = []"
    "synthQueue booking_listening = []" "recognizers booking_speaking = []"
    by code_simp+
  show ?thesis
    using pre
      unsupported_engine_degrades [of no_synthesis "(js ''Hello'')" booking_listening]
      unsupported_engine_degrades [of no_synthesis "(js ''Which day?'')" booking_listening]
      unsupported_engine_degrades [of no_recognition "(js ''Hello'')" booking_listening]
      unsupported_engine_degrades [of no_recognition "(js ''Hello'')" booking_speaking]
    by (simp add: upd_b_def)
qed

text \<open>
  C1. The claim does not hold of the code. In the booking loop neither the microphone
  button nor \<^verbatim>\<open>startBookingListening\<close> stops the speech: a tap during the welcome
  leaves the loop speaking and listening at once. In the check-in loop the button
  stops the speech first (\<^verbatim>\<open>toggleCheckinVoice\<close>), but the timer set at the end of an
  utterance calls \<^verbatim>\<open>startCheckinListening\<close>, which does not: a reply that arrives and
  is spoken within the 400 ms is overlapped by the microphone.
\<close>

theorem speaking_and_listening_at_once:
  "b_isSpeaking (booking booking_speaking) \<and>
   \<not> b_isListening (booking booking_speaking) \<and>
   b_isSpeaking (booking booking_mic_tap) \<and>
   b_isListening (booking booking_mic_tap) \<and>
   synthQueue booking_mic_tap = [\<lparr>u_id = 0, u_owner = Booking, u_text = js ''Welcome''\<rparr>] \<and>
   recognizers booking_mic_tap =
     [\<lparr>r_id = 1, r_owner = Booking, r_final = [], r_active = True\<rparr>] \<and>
   c_isSpeaking (checkin checkin_reply_race) \<and>
   c_isListening (checkin checkin_reply_race) \<and>
   c_isSpeaking (checkin checkin_greeting) \<and>
   \<not> c_isSpeaking (checkin (toggleCheckinVoice browser checkin_greeting)) \<and>
   c_isListening (checkin (toggleCheckinVoice browser checkin_greeting))"
  by code_simp

end
